theory Spec2Isabelle
  imports Complex_Main "HOL-Library.Word"
begin

unbundle bit_operations_syntax

section \<open>Python strings, their UTF-8 encoding, and exceptions\<close>

text \<open>
  A Python \<open>str\<close> is the list of its code points (numbers up to \<open>0x10FFFF\<close>). A
  \<open>str\<close> may hold a lone surrogate (a code point from \<open>0xD800\<close> to \<open>0xDFFF\<close>): such
  a string is what \<open>json.loads\<close> returns for the JSON text \<open>"\ud800"\<close>. A \<open>bytes\<close>
  value is a \<open>string\<close> of HOL, a list of 8-bit characters.
\<close>

type_synonym pystr = "nat list"

definition is_surrogate :: "nat \<Rightarrow> bool" where
  "is_surrogate cp = (0xD800 \<le> cp \<and> cp \<le> 0xDFFF)"

text \<open>The UTF-8 bytes of one code point that is not a surrogate.\<close>

definition utf8_bytes :: "nat \<Rightarrow> string" where
  "utf8_bytes cp =
     (if cp < 0x80 then [char_of cp]
      else if cp < 0x800 then [char_of (0xC0 + cp div 64), char_of (0x80 + cp mod 64)]
      else if cp < 0x10000 then
        [char_of (0xE0 + cp div 4096), char_of (0x80 + cp div 64 mod 64),
         char_of (0x80 + cp mod 64)]
      else
        [char_of (0xF0 + cp div 262144), char_of (0x80 + cp div 4096 mod 64),
         char_of (0x80 + cp div 64 mod 64), char_of (0x80 + cp mod 64)])"

text \<open>
  The exceptions the two HTTP services raise or catch. \<open>HTTPException\<close> carries its
  status code (the detail text is left out); \<open>RequestException\<close> is any failure of the
  HTTP round trip to the backend (connection, timeout, error status, undecodable body).
\<close>

datatype exc =
  HTTPException nat | RequestException | Exception string | ValueError | UnicodeEncodeError

text \<open>
  \<open>text.encode('utf-8')\<close>, which is also \<open>text.encode()\<close>: the bytes of the code
  points in order; a surrogate anywhere in the text raises \<open>UnicodeEncodeError\<close>.
\<close>

definition encode_utf8 :: "pystr \<Rightarrow> exc + string" where
  "encode_utf8 text =
     (if list_ex is_surrogate text then Inl UnicodeEncodeError
      else Inr (concat (map utf8_bytes text)))"

text \<open>
  The \<open>str\<close> written as a literal of ASCII characters, for the closed examples.
\<close>

definition ascii :: "string \<Rightarrow> pystr" where
  "ascii s = map of_char s"

section \<open>Digests, hexadecimal text and Python's \<open>int(s, 16)\<close>\<close>

text \<open>
  \<open>hashlib.md5\<close> belongs to the Python standard library, not to the repository. It is
  taken as a parameter \<open>md5 :: string \<Rightarrow> 128 word\<close>: the 16 digest bytes of a
  \<open>bytes\<close> value, read big-endian. \<open>hexdigest\<close> renders the digest as 32 lower-case
  hexadecimal characters, most significant nibble first.
\<close>

definition hex_digit :: "nat \<Rightarrow> char" where
  "hex_digit n = ''0123456789abcdef'' ! n"

definition hexdigest :: "128 word \<Rightarrow> string" where
  "hexdigest w =
     map (\<lambda>k. hex_digit (unat (take_bit 4 (drop_bit (4 * (31 - k)) w)))) [0..<32]"

text \<open>
  The value of one hexadecimal character, \<open>None\<close> for any other character.
\<close>

definition hex_val :: "char \<Rightarrow> nat option" where
  "hex_val c =
     (let n = of_char c :: nat in
      if 48 \<le> n \<and> n \<le> 57 then Some (n - 48)
      else if 97 \<le> n \<and> n \<le> 102 then Some (n - 87)
      else if 65 \<le> n \<and> n \<le> 70 then Some (n - 55)
      else None)"

text \<open>
  \<open>int(s, 16)\<close> on a string of hexadecimal digits: the digits are folded from the left;
  the empty string and a string with any other character raise \<open>ValueError\<close>, which is
  \<open>None\<close> here. (Python also accepts a sign, a \<open>0x\<close> prefix, surrounding blanks and
  underscores; the strings parsed by this program are slices of a digest followed by
  \<open>0\<close> characters and have none of these.)
\<close>

fun hex_fold :: "nat \<Rightarrow> string \<Rightarrow> nat option" where
  "hex_fold acc [] = Some acc"
| "hex_fold acc (c # cs) =
     (case hex_val c of None \<Rightarrow> None | Some d \<Rightarrow> hex_fold (acc * 16 + d) cs)"

definition int_of_hex :: "string \<Rightarrow> nat option" where
  "int_of_hex s = (if s = [] then None else hex_fold 0 s)"

section \<open>The quantized-hash fallback (\<open>openai_compatible_api.py\<close>)\<close>

text \<open>
  \<open>hex_slice = hex_digest[i:i+8] if i + 8 <= len(hex_digest)
               else hex_digest[i:] + "0" * (8 - (len(hex_digest) - i))\<close>.
  Python's repetition count is an integer that may exceed 8 once \<open>i\<close> is past the end
  of the digest; a slice past the end is empty.
\<close>

definition hex_slice :: "string \<Rightarrow> nat \<Rightarrow> string" where
  "hex_slice hex_digest i =
     (if i + 8 \<le> length hex_digest then take 8 (drop i hex_digest)
      else drop i hex_digest
           @ replicate (nat (8 - (int (length hex_digest) - int i))) (CHR ''0''))"

text \<open>
  \<open>try: hash_val = int(hex_slice, 16)  except ValueError: hash_val = 0\<close>
\<close>

definition hash_val :: "string \<Rightarrow> nat" where
  "hash_val s = (case int_of_hex s of Some v \<Rightarrow> v | None \<Rightarrow> 0)"

text \<open>
  The four floats appended for one value:
  \<open>((hash_val >> 24) & 0xFF) / 127.5 - 1.0\<close>, then shifts 16, 8 and 0.
  These floats are modelled by the reals (exact arithmetic).
\<close>

definition byte_float :: "nat \<Rightarrow> real" where
  "byte_float b = real b / 127.5 - 1.0"

definition block :: "nat \<Rightarrow> real list" where
  "block v =
     [byte_float (drop_bit 24 v AND 0xFF),
      byte_float (drop_bit 16 v AND 0xFF),
      byte_float (drop_bit 8 v AND 0xFF),
      byte_float (v AND 0xFF)]"

text \<open>\<open>range(0, 2560, 4)\<close>, the loop's index values.\<close>

definition range_step4 :: "nat \<Rightarrow> nat list" where
  "range_step4 stop = map (\<lambda>k. 4 * k) [0..<(stop + 3) div 4]"

text \<open>
  The loop \<open>for i in range(0, 2560, 4): ... embedding.extend([...])\<close>, run over the
  list of index values with the list built so far as accumulator.
\<close>

fun extend_loop :: "string \<Rightarrow> nat list \<Rightarrow> real list \<Rightarrow> real list" where
  "extend_loop hex_digest [] embedding = embedding"
| "extend_loop hex_digest (i # is) embedding =
     extend_loop hex_digest is (embedding @ block (hash_val (hex_slice hex_digest i)))"

text \<open>
  \<open>get_fallback_embeddings\<close>. The text is encoded first, and a text that cannot be
  encoded raises \<open>UnicodeEncodeError\<close>, which the function does not catch. (The
  \<open>print\<close> of the first 50 characters ahead of it fails in the same way on a surrogate
  when standard output is UTF-8, and prints otherwise.) The result is the exception or
  the vector returned.
\<close>

definition get_fallback_embeddings :: "(string \<Rightarrow> 128 word) \<Rightarrow> pystr \<Rightarrow> exc + real list"
  where
  "get_fallback_embeddings md5 text =
     (case encode_utf8 text of
        Inl e \<Rightarrow> Inl e
      | Inr encoded \<Rightarrow>
          (let hex_digest = hexdigest (md5 encoded);
               embedding = extend_loop hex_digest (range_step4 2560) []
           in Inr (take 2560 embedding)))"

text \<open>
  Closed examples need a value for the parameter \<open>md5\<close>. \<open>known_md5\<close> gives the MD5
  digests of the byte strings the examples use: \<open>hello world\<close>, \<open>hello\<close> and, for
  every other argument, the digest of the empty byte string.
\<close>

definition known_md5 :: "string \<Rightarrow> 128 word" where
  "known_md5 encoded =
     (if encoded = ''hello world'' then 0x5eb63bbbe01eeed093cb22bb8f5acdc3
      else if encoded = ''hello'' then 0x5d41402abc4b2a76b9719d911017c592
      else 0xd41d8cd98f00b204e9800998ecf8427e)"

text \<open>
  Two descriptions of the window read at offset \<open>i\<close>, to compare with \<open>hex_slice\<close>.
  \<open>padded_window\<close>: the eight characters from offset \<open>i\<close> of the digest followed by
  \<open>0\<close> characters. \<open>cyclic_window\<close> follows the specification's words (``recycled /
  cyclically padded when the digest is exhausted''): the eight characters from offset
  \<open>i\<close>, wrapping around to the start of the digest; \<open>quantized_hash_cyclic\<close> is the
  vector built from those windows for a digest.
\<close>

definition padded_window :: "string \<Rightarrow> nat \<Rightarrow> string" where
  "padded_window hex_digest i = take 8 (drop i hex_digest @ replicate 8 (CHR ''0''))"

definition cyclic_window :: "string \<Rightarrow> nat \<Rightarrow> string" where
  "cyclic_window hex_digest i =
     map (\<lambda>j. hex_digest ! ((i + j) mod length hex_digest)) [0..<8]"

definition quantized_hash_cyclic :: "string \<Rightarrow> real list" where
  "quantized_hash_cyclic hex_digest =
     concat (map (\<lambda>i. block (hash_val (cyclic_window hex_digest i))) (range_step4 2560))"

section \<open>The embedding service (\<open>embedding_service.py\<close>)\<close>

subsection \<open>NumPy floats\<close>

text \<open>
  A float is a finite double, given by the real number it stands for, or one of the IEEE
  special values. The special values are kept because NumPy does not raise on a division
  by zero: \<open>0.0 / 0.0\<close> is \<open>nan\<close> and \<open>x / 0.0\<close> is an infinity, with a warning
  only. (The model has no signed zeros.)
\<close>

datatype npfloat = Fin real | PInf | NInf | NaN

subsection \<open>Libraries and the backend\<close>

text \<open>
  The libraries the service calls are parameters, collected in a record:
  \<^item> \<open>np_random_seed s\<close> is the state of NumPy's global generator after
    \<open>np.random.seed(s)\<close>;
  \<^item> \<open>np_random_gauss g\<close> draws one standard normal sample from state \<open>g\<close> and gives
    the next state;
  \<^item> \<open>np_linalg_norm v\<close> is \<open>np.linalg.norm(v)\<close> of a one-dimensional array of
    doubles, and \<open>np_divide x y\<close> is the quotient \<open>x / y\<close> of two doubles. Both are
    floating-point operations: they round, overflow and underflow, and neither raises
    (a zero or invalid divisor gives a warning);
  \<^item> \<open>hashlib_md5\<close> is the digest function.
  The state of the global generator is threaded through every function that may draw
  from it.
\<close>

record 'g libs =
  np_random_seed :: "nat \<Rightarrow> 'g"
  np_random_gauss :: "'g \<Rightarrow> real \<times> 'g"
  np_linalg_norm :: "npfloat list \<Rightarrow> npfloat"
  np_divide :: "npfloat \<Rightarrow> npfloat \<Rightarrow> npfloat"
  hashlib_md5 :: "string \<Rightarrow> 128 word"

text \<open>
  \<open>vector / np.linalg.norm(vector)\<close>: every component is divided by the norm. The
  source has no test of the norm before the division, at either place it normalises.
\<close>

definition l2_normalize :: "'g libs \<Rightarrow> npfloat list \<Rightarrow> npfloat list" where
  "l2_normalize L vector = map (\<lambda>x. np_divide L x (np_linalg_norm L vector)) vector"

text \<open>
  What a call to the backend's \<open>/api/embeddings\<close> yields: a failure of the round trip,
  or a decoded JSON object, of which the program reads only the field \<open>embedding\<close>
  (\<open>None\<close> when the field is absent, else the list of floats).
\<close>

datatype ollama_reply = RequestFailed | Body "npfloat list option"

subsection \<open>\<open>deterministic_embedding\<close>\<close>

text \<open>
  \<open>np.random.normal(loc, scale, size)\<close> for a size that is not negative: \<open>size\<close>
  draws in sequence, each \<open>loc + scale * z\<close> for a standard normal draw \<open>z\<close>.
\<close>

fun np_random_normal :: "'g libs \<Rightarrow> real \<Rightarrow> real \<Rightarrow> nat \<Rightarrow> 'g \<Rightarrow> real list \<times> 'g" where
  "np_random_normal L loc scale 0 g = ([], g)"
| "np_random_normal L loc scale (Suc n) g =
     (case np_random_gauss L g of
        (z, g1) \<Rightarrow>
          (case np_random_normal L loc scale n g1 of
             (zs, g2) \<Rightarrow> ((loc + scale * z) # zs, g2)))"

text \<open>
  \<open>deterministic_embedding(text, dimension)\<close>. None of its exceptions is caught inside
  the function:
  \<^item> \<open>text.encode('utf-8')\<close> raises \<open>UnicodeEncodeError\<close> on a text with a surrogate,
    before the generator is touched;
  \<^item> \<open>seed = int(hash_obj.hexdigest()[:8], 16)\<close> raises \<open>ValueError\<close> on a string
    that is not hexadecimal, and \<open>np.random.seed(seed)\<close> raises \<open>ValueError\<close> unless
    \<open>0 \<le> seed < 2 ^ 32\<close>;
  \<^item> \<open>np.random.normal(0, 0.1, dimension)\<close> raises \<open>ValueError\<close> on a negative
    \<open>dimension\<close>, after the generator was seeded.
  The result is the list returned (or the exception) and the generator's state
  afterwards.
\<close>

definition deterministic_embedding ::
  "'g libs \<Rightarrow> pystr \<Rightarrow> int \<Rightarrow> 'g \<Rightarrow> (exc + npfloat list) \<times> 'g" where
  "deterministic_embedding L text dimension g =
     (case encode_utf8 text of
        Inl e \<Rightarrow> (Inl e, g)
      | Inr encoded \<Rightarrow>
          (case int_of_hex (take 8 (hexdigest (hashlib_md5 L encoded))) of
             None \<Rightarrow> (Inl ValueError, g)
           | Some seed \<Rightarrow>
               if 2 ^ 32 \<le> seed then (Inl ValueError, g)
               else if dimension < 0 then (Inl ValueError, np_random_seed L seed)
               else
                 (case np_random_normal L 0 0.1 (nat dimension) (np_random_seed L seed) of
                    (vector, g') \<Rightarrow> (Inr (l2_normalize L (map Fin vector)), g'))))"

subsection \<open>Process state, start-up probe\<close>

text \<open>
  The module's global variables. \<open>MODEL_NAME\<close> is read from the environment when the
  module is loaded.
\<close>

record globals =
  MODEL_NAME :: string
  model_type :: string
  model_device :: string
  QWEN3_EMBEDDING_DIM :: nat

definition initial_globals :: "string \<Rightarrow> globals" where
  "initial_globals name =
     \<lparr>MODEL_NAME = name, model_type = ''sentence_transformers'',
      model_device = ''cpu'', QWEN3_EMBEDDING_DIM = 2560\<rparr>"

text \<open>
  \<open>load_model\<close> (the second definition of that name, which replaces the first): a GET
  of the backend's version (\<open>version_ok\<close> says whether it succeeded), then a test
  embedding call. Any failure is raised again as \<open>Exception\<close>; on success the globals
  are set. \<open>cuda\<close> is \<open>torch.cuda.is_available()\<close>. (The imports inside the
  function are taken to succeed; the messages of the exceptions are cut to their fixed
  prefix.)
\<close>

definition load_model :: "bool \<Rightarrow> ollama_reply \<Rightarrow> bool \<Rightarrow> globals \<Rightarrow> exc + globals" where
  "load_model version_ok test_reply cuda G =
     (if \<not> version_ok then Inl (Exception ''Ollama API connection failed'')
      else
        (case test_reply of
           RequestFailed \<Rightarrow> Inl (Exception ''Ollama API connection failed'')
         | Body None \<Rightarrow> Inl (Exception ''Qwen3 model verification failed'')
         | Body (Some embedding) \<Rightarrow>
             Inr (G\<lparr>model_device := (if cuda then ''cuda'' else ''cpu''),
                    model_type := ''ollama_qwen3'',
                    QWEN3_EMBEDDING_DIM := length embedding\<rparr>)))"

text \<open>
  \<open>startup_event\<close> logs a failure of \<open>load_model\<close> and does not raise: the globals
  stay as they were.
\<close>

definition startup_event :: "bool \<Rightarrow> ollama_reply \<Rightarrow> bool \<Rightarrow> globals \<Rightarrow> globals" where
  "startup_event version_ok test_reply cuda G =
     (case load_model version_ok test_reply cuda G of
        Inl e \<Rightarrow> G
      | Inr G' \<Rightarrow> G')"

subsection \<open>\<open>get_embeddings\<close> and the \<open>/embed\<close> endpoint\<close>

text \<open>
  The dimension step inside \<open>get_embeddings\<close>: truncate when longer than
  \<open>target_dim\<close>, extend with \<open>0.0\<close> when shorter.
\<close>

definition reconcile :: "nat \<Rightarrow> npfloat list \<Rightarrow> npfloat list" where
  "reconcile target_dim embedding_vector =
     (if length embedding_vector > target_dim then take target_dim embedding_vector
      else if length embedding_vector < target_dim
        then embedding_vector @ replicate (target_dim - length embedding_vector) (Fin 0)
      else embedding_vector)"

text \<open>
  The body of the \<open>try\<close> block up to the normalisation: the vector to normalise, or the
  exception raised. The test of \<open>model_type\<close> is repeated as in the source; its
  \<open>else\<close> branch calls the deterministic generator.
\<close>

definition embedding_vector_of ::
  "'g libs \<Rightarrow> (pystr \<Rightarrow> ollama_reply) \<Rightarrow> globals \<Rightarrow> pystr \<Rightarrow> 'g \<Rightarrow> (exc + npfloat list) \<times> 'g"
  where
  "embedding_vector_of L ollama G text g =
     (if model_type G = ''ollama_qwen3'' then
        (case ollama text of
           RequestFailed \<Rightarrow> (Inl RequestException, g)
         | Body None \<Rightarrow> (Inl (Exception ''No embedding returned from Ollama API''), g)
         | Body (Some embedding_vector) \<Rightarrow>
             (Inr (reconcile (QWEN3_EMBEDDING_DIM G) embedding_vector), g))
      else deterministic_embedding L text 2560 g)"

text \<open>
  \<open>get_embeddings\<close>: the guard on \<open>model_type\<close> raises 503 before the \<open>try\<close>; inside
  it, the vector is normalised and returned; both \<open>except\<close> clauses
  (\<open>RequestException\<close> and \<open>Exception\<close>) return
  \<open>deterministic_embedding(text, 2560)\<close>, whose own exceptions are not caught.
\<close>

definition get_embeddings ::
  "'g libs \<Rightarrow> (pystr \<Rightarrow> ollama_reply) \<Rightarrow> globals \<Rightarrow> pystr \<Rightarrow> 'g \<Rightarrow> (exc + npfloat list) \<times> 'g"
  where
  "get_embeddings L ollama G text g =
     (if model_type G \<noteq> ''ollama_qwen3'' then (Inl (HTTPException 503), g)
      else
        (case embedding_vector_of L ollama G text g of
           (Inr embedding_vector, g1) \<Rightarrow> (Inr (l2_normalize L embedding_vector), g1)
         | (Inl e, g1) \<Rightarrow> deterministic_embedding L text 2560 g1))"

text \<open>
  The request and response of \<open>/embed\<close> (\<open>processing_time_ms\<close>, a wall-clock reading,
  is left out). \<open>create_embedding\<close> turns every exception of \<open>get_embeddings\<close>
  into \<open>HTTPException(status_code=500)\<close>.
\<close>

record embedding_request =
  request_text :: pystr
  model_name :: "string option"

record embedding_response =
  embedding :: "npfloat list"
  model :: string
  dimension :: nat

definition create_embedding ::
  "'g libs \<Rightarrow> (pystr \<Rightarrow> ollama_reply) \<Rightarrow> globals \<Rightarrow> embedding_request \<Rightarrow> 'g
     \<Rightarrow> (exc + embedding_response) \<times> 'g" where
  "create_embedding L ollama G request g =
     (case get_embeddings L ollama G (request_text request) g of
        (Inr emb, g1) \<Rightarrow>
          (Inr \<lparr>embedding = emb,
                model = (case model_name request of
                           None \<Rightarrow> MODEL_NAME G @ ''_'' @ model_type G
                         | Some n \<Rightarrow> if n = [] then MODEL_NAME G @ ''_'' @ model_type G else n),
                dimension = length emb\<rparr>, g1)
      | (Inl e, g1) \<Rightarrow> (Inl (HTTPException 500), g1))"

subsection \<open>Values for the parameters in closed examples\<close>

text \<open>
  The norm and the quotient of the examples are those of exact arithmetic, with the
  special cases of IEEE: \<open>exact_norm\<close> is the square root of the sum of the squares
  (\<open>nan\<close> when a component is \<open>nan\<close>, else infinite when a component is infinite), and
  \<open>exact_divide\<close> is the quotient, where \<open>0.0 / 0.0\<close> and the quotient of two
  infinities are \<open>nan\<close> and another quotient by \<open>0.0\<close> is an infinity. They agree with
  the floating-point operations where these are exact, as on the zero vector.
\<close>

fun fin_val :: "npfloat \<Rightarrow> real" where
  "fin_val (Fin x) = x"
| "fin_val PInf = 0"
| "fin_val NInf = 0"
| "fin_val NaN = 0"

definition exact_norm :: "npfloat list \<Rightarrow> npfloat" where
  "exact_norm v =
     (if NaN \<in> set v then NaN
      else if PInf \<in> set v \<or> NInf \<in> set v then PInf
      else Fin (sqrt (sum_list (map (\<lambda>x. (fin_val x)\<^sup>2) v))))"

fun exact_divide :: "npfloat \<Rightarrow> npfloat \<Rightarrow> npfloat" where
  "exact_divide NaN y = NaN"
| "exact_divide (Fin x) NaN = NaN"
| "exact_divide PInf NaN = NaN"
| "exact_divide NInf NaN = NaN"
| "exact_divide (Fin x) (Fin y) =
     (if y \<noteq> 0 then Fin (x / y)
      else if x = 0 then NaN
      else if 0 < x then PInf else NInf)"
| "exact_divide (Fin x) PInf = Fin 0"
| "exact_divide (Fin x) NInf = Fin 0"
| "exact_divide PInf (Fin y) = (if 0 \<le> y then PInf else NInf)"
| "exact_divide NInf (Fin y) = (if 0 \<le> y then NInf else PInf)"
| "exact_divide PInf PInf = NaN"
| "exact_divide PInf NInf = NaN"
| "exact_divide NInf PInf = NaN"
| "exact_divide NInf NInf = NaN"

text \<open>
  A generator whose state counts the draws made and whose every draw is \<open>1.0\<close>, with
  the digests of \<open>known_md5\<close>; a backend that cannot be reached; and a backend that
  answers every text with the same embedding.
\<close>

definition example_libs :: "nat libs" where
  "example_libs =
     \<lparr>np_random_seed = (\<lambda>s. 0), np_random_gauss = (\<lambda>g. (1, Suc g)),
      np_linalg_norm = exact_norm, np_divide = exact_divide,
      hashlib_md5 = known_md5\<rparr>"


definition backend_down :: "pystr \<Rightarrow> ollama_reply" where
  "backend_down prompt = RequestFailed"

definition backend_answers :: "npfloat list \<Rightarrow> pystr \<Rightarrow> ollama_reply" where
  "backend_answers v prompt = Body (Some v)"

text \<open>
  The length of the vector a call returned, \<open>None\<close> when it raised.
\<close>

definition result_length :: "(exc + npfloat list) \<times> 'g \<Rightarrow> nat option" where
  "result_length r = (case fst r of Inl e \<Rightarrow> None | Inr v \<Rightarrow> Some (length v))"

section \<open>The JSON-RPC bridges (\<open>localai_mcp_server.py\<close>, \<open>qdrant_mcp_server.py\<close>)\<close>

subsection \<open>JSON values and the Python operations used on them\<close>

text \<open>
  The values \<open>json.loads\<close> returns. A dictionary is an association list, looked up
  from the front. A string inside a value is a list of characters (the method names
  and keys this program compares are ASCII).
\<close>

datatype json =
    JNull
  | JBool bool
  | JInt int
  | JFloat real
  | JString string
  | JArray "json list"
  | JObject "(string \<times> json) list"

text \<open>
  Exceptions of class \<open>Exception\<close>. \<open>AttributeError v\<close> is raised by \<open>v.get(...)\<close> on
  a value that is not a dictionary, \<open>TypeError v\<close> by \<open>len(v)\<close> or by iterating \<open>v\<close>
  when \<open>v\<close> has no length or is not iterable; \<open>Raised m\<close> is any other exception, with
  its message.
\<close>

datatype py_error = AttributeError json | TypeError json | Raised string

text \<open>
  The outcome of \<open>json.loads\<close>: it raises \<open>JSONDecodeError\<close>, it raises another
  exception (\<open>RecursionError\<close> on a text nested too deeply), or it returns the value.
\<close>

datatype loads_result = JSONDecodeError | LoadsRaised py_error | Loaded json

text \<open>
  The Python runtime, as parameters: \<open>json.loads\<close> of a \<open>str\<close>, \<open>str()\<close> of a
  value that is not a string (inside an f-string) and \<open>str()\<close> of an exception.
\<close>

record py_runtime =
  json_loads :: "pystr \<Rightarrow> loads_result"
  str_value :: "json \<Rightarrow> string"
  str_exception :: "py_error \<Rightarrow> string"

text \<open>
  \<open>d.get(key, default)\<close>: on a dictionary the value of the key, or the default when
  the key is absent; on any other value \<open>AttributeError\<close>.
\<close>

definition dict_get :: "(string \<times> json) list \<Rightarrow> string \<Rightarrow> json \<Rightarrow> json" where
  "dict_get kv key dflt = (case map_of kv key of Some v \<Rightarrow> v | None \<Rightarrow> dflt)"

fun py_get :: "json \<Rightarrow> string \<Rightarrow> json \<Rightarrow> py_error + json" where
  "py_get (JObject kv) key dflt = Inr (dict_get kv key dflt)"
| "py_get v key dflt = Inl (AttributeError v)"

text \<open>\<open>len(v)\<close>\<close>

fun py_len :: "json \<Rightarrow> py_error + nat" where
  "py_len (JArray xs) = Inr (length xs)"
| "py_len (JString s) = Inr (length s)"
| "py_len (JObject kv) = Inr (length kv)"
| "py_len v = Inl (TypeError v)"

text \<open>
  The elements that iterating over a value yields: the items of a list, the characters
  of a string, the keys of a dictionary.
\<close>

fun py_iter :: "json \<Rightarrow> py_error + json list" where
  "py_iter (JArray xs) = Inr xs"
| "py_iter (JString s) = Inr (map (\<lambda>c. JString [c]) s)"
| "py_iter (JObject kv) = Inr (map (\<lambda>(k, v). JString k) kv)"
| "py_iter v = Inl (TypeError v)"

text \<open>\<open>f'{v}'\<close>: a string is inserted as it is, another value through \<open>str()\<close>.\<close>

definition format_value :: "py_runtime \<Rightarrow> json \<Rightarrow> string" where
  "format_value R v = (case v of JString s \<Rightarrow> s | _ \<Rightarrow> str_value R v)"

subsection \<open>Reading lines\<close>

text \<open>
  Standard input is the list of the outcomes of the successive calls of
  \<open>sys.stdin.readline()\<close>: \<open>Line s\<close> when the call returns the \<open>str\<close> \<open>s\<close> (a
  line with its newline, or what is left of the input when it has no newline), and
  \<open>ReadRaises e\<close> when the call raises (\<open>UnicodeDecodeError\<close> on bytes that cannot
  be decoded). \<open>readline\<close> returns the empty \<open>str\<close> at the end of the input only:
  that is the outcome \<open>Line []\<close>, and the outcome of every call once the list is
  exhausted.
\<close>

datatype read_result = Line pystr | ReadRaises py_error

text \<open>
  \<open>line.strip()\<close>: leading and trailing white space removed. White space is every
  code point for which \<open>str.isspace\<close> holds: the ASCII ones (tab to carriage return,
  the separators \<open>0x1C\<close> to \<open>0x1F\<close>, the space) and those of Unicode (next line, the
  no-break spaces, the Ogham space mark, the spaces \<open>0x2000\<close> to \<open>0x200A\<close>, the line
  and paragraph separators, the medium mathematical space and the ideographic space).
\<close>

definition is_space :: "nat \<Rightarrow> bool" where
  "is_space cp =
     ((9 \<le> cp \<and> cp \<le> 13) \<or> (28 \<le> cp \<and> cp \<le> 32) \<or> cp = 0x85 \<or> cp = 0xA0 \<or>
      cp = 0x1680 \<or> (0x2000 \<le> cp \<and> cp \<le> 0x200A) \<or> cp = 0x2028 \<or> cp = 0x2029 \<or>
      cp = 0x202F \<or> cp = 0x205F \<or> cp = 0x3000)"

definition strip :: "pystr \<Rightarrow> pystr" where
  "strip s = rev (dropWhile is_space (rev (dropWhile is_space s)))"

subsection \<open>The dispatcher loop\<close>

text \<open>
  The two response shapes written by \<open>main\<close>; an output line is the JSON value that
  \<open>json.dumps\<close> prints.
\<close>

definition rpc_response :: "json \<Rightarrow> json \<Rightarrow> json" where
  "rpc_response request_id result =
     JObject [(''jsonrpc'', JString ''2.0''), (''id'', request_id), (''result'', result)]"

definition error_response :: "py_runtime \<Rightarrow> py_error \<Rightarrow> json" where
  "error_response R e =
     JObject [(''jsonrpc'', JString ''2.0''), (''id'', JNull),
              (''error'', JObject [(''message'', JString (str_exception R e))])]"

text \<open>
  The body of the loop for one line that was read: the lines printed (none or one) and
  the state of the world afterwards. \<open>handle\<close> is the server's \<open>handle_request\<close>; the
  world \<open>'w\<close> is what the handlers talk to (the network, the clock).
  \<open>except json.JSONDecodeError: continue\<close> prints nothing; \<open>except Exception\<close> prints
  the error response.
\<close>

definition process_line ::
  "py_runtime \<Rightarrow> (json \<Rightarrow> json \<Rightarrow> 'w \<Rightarrow> json \<times> 'w) \<Rightarrow> pystr \<Rightarrow> 'w \<Rightarrow> json list \<times> 'w" where
  "process_line R handle line w =
     (case json_loads R (strip line) of
        JSONDecodeError \<Rightarrow> ([], w)
      | LoadsRaised e \<Rightarrow> ([error_response R e], w)
      | Loaded request \<Rightarrow>
          (case py_get request ''method'' (JString []) of
             Inl e \<Rightarrow> ([error_response R e], w)
           | Inr method \<Rightarrow>
               (case py_get request ''params'' (JObject []) of
                  Inl e \<Rightarrow> ([error_response R e], w)
                | Inr params \<Rightarrow>
                    (case handle method params w of
                       (result, w1) \<Rightarrow>
                         (case py_get request ''id'' JNull of
                            Inl e \<Rightarrow> ([error_response R e], w1)
                          | Inr request_id \<Rightarrow> ([rpc_response request_id result], w1))))))"

text \<open>
  \<open>while True\<close>: call \<open>readline\<close>; when it raises, the \<open>except Exception\<close> clause
  prints the error response and the loop goes on; when it returns the empty \<open>str\<close>
  the loop stops (\<open>if not line: break\<close>); else the body is run and the loop goes on.
  The result is every line printed, in order, and the final state of the world.
\<close>

fun mcp_main ::
  "py_runtime \<Rightarrow> (json \<Rightarrow> json \<Rightarrow> 'w \<Rightarrow> json \<times> 'w) \<Rightarrow> read_result list \<Rightarrow> 'w
     \<Rightarrow> json list \<times> 'w" where
  "mcp_main R handle [] w = ([], w)"
| "mcp_main R handle (ReadRaises e # rest) w =
     (case mcp_main R handle rest w of
        (outs, w2) \<Rightarrow> (error_response R e # outs, w2))"
| "mcp_main R handle (Line line # rest) w =
     (if line = [] then ([], w)
      else
        (case process_line R handle line w of
           (out, w1) \<Rightarrow>
             (case mcp_main R handle rest w1 of
                (outs, w2) \<Rightarrow> (out @ outs, w2))))"

subsection \<open>\<open>LocalAIMCPServer\<close>\<close>

text \<open>
  The handlers of the embedding bridge make one HTTP round trip each and reshape the
  answer. They are parameters: given their argument and the world, the dictionary they
  return or the exception they raise, and the world afterwards.
\<close>

record 'w localai_server =
  embedding_health_check :: "'w \<Rightarrow> (py_error + json) \<times> 'w"
  generate_embeddings :: "json \<Rightarrow> 'w \<Rightarrow> (py_error + json) \<times> 'w"
  generate_single_embedding :: "json \<Rightarrow> 'w \<Rightarrow> (py_error + json) \<times> 'w"
  get_models :: "'w \<Rightarrow> (py_error + json) \<times> 'w"

text \<open>
  The \<open>try ... except Exception as e: return {'error': str(e)}\<close> around the whole of
  \<open>handle_request\<close>.
\<close>

definition except_to_error :: "py_runtime \<Rightarrow> (py_error + json) \<times> 'w \<Rightarrow> json \<times> 'w" where
  "except_to_error R r =
     (case r of
        (Inl e, w) \<Rightarrow> (JObject [(''error'', JString (str_exception R e))], w)
      | (Inr result, w) \<Rightarrow> (result, w))"

definition unknown_method :: "py_runtime \<Rightarrow> json \<Rightarrow> json" where
  "unknown_method R method =
     JObject [(''error'', JString (''Unknown method: '' @ format_value R method))]"

text \<open>
  \<open>LocalAIMCPServer.handle_request\<close>. The argument of a handler is read from
  \<open>params\<close> before the handler is called, inside the \<open>try\<close>.
\<close>

definition LocalAI_handle_request ::
  "py_runtime \<Rightarrow> 'w localai_server \<Rightarrow> json \<Rightarrow> json \<Rightarrow> 'w \<Rightarrow> json \<times> 'w" where
  "LocalAI_handle_request R S method params w =
     except_to_error R
       (if method = JString ''embedding_health'' then embedding_health_check S w
        else if method = JString ''embedding_generate'' then
          (case py_get params ''texts'' (JArray []) of
             Inl e \<Rightarrow> (Inl e, w)
           | Inr texts \<Rightarrow> generate_embeddings S texts w)
        else if method = JString ''embedding_generate_single'' then
          (case py_get params ''text'' (JString []) of
             Inl e \<Rightarrow> (Inl e, w)
           | Inr txt \<Rightarrow> generate_single_embedding S txt w)
        else if method = JString ''embedding_models'' then get_models S w
        else (Inr (unknown_method R method), w))"

definition LocalAI_main ::
  "py_runtime \<Rightarrow> 'w localai_server \<Rightarrow> read_result list \<Rightarrow> 'w \<Rightarrow> json list \<times> 'w" where
  "LocalAI_main R S inp w = mcp_main R (LocalAI_handle_request R S) inp w"


subsection \<open>\<open>QdrantMCPServer\<close>\<close>

text \<open>
  The handlers of the vector-store bridge other than \<open>insert_vectors\<close> are parameters
  as above. For \<open>insert_vectors\<close> the HTTP round trip alone is a parameter:
  \<open>put_points payload w\<close> is the decoded body of the answer to the PUT of \<open>payload\<close>,
  or the exception raised. \<open>isoformat_now\<close> is \<open>datetime.now().isoformat()\<close>.
\<close>

record 'w qdrant_server =
  qdrant_health_check :: "'w \<Rightarrow> (py_error + json) \<times> 'w"
  list_collections :: "'w \<Rightarrow> (py_error + json) \<times> 'w"
  create_collection :: "json \<Rightarrow> 'w \<Rightarrow> (py_error + json) \<times> 'w"
  search_vectors :: "json \<Rightarrow> json \<Rightarrow> 'w \<Rightarrow> (py_error + json) \<times> 'w"
  get_collections_info :: "'w \<Rightarrow> (py_error + json) \<times> 'w"
  put_points :: "json \<Rightarrow> 'w \<Rightarrow> (py_error + json) \<times> 'w"
  isoformat_now :: "'w \<Rightarrow> string"

definition collection_name :: string where
  "collection_name = ''ai_communication_vectors''"

text \<open>
  One point of the payload: \<open>{'id': i + 1, 'vector': vector, 'payload': meta}\<close>.
\<close>

definition point :: "nat \<Rightarrow> json \<Rightarrow> json \<Rightarrow> json" where
  "point i vector meta =
     JObject [(''id'', JInt (int i + 1)), (''vector'', vector), (''payload'', meta)]"

text \<open>
  \<open>for i, (vector, meta) in enumerate(zip(vectors, metadata)): points.append(...)\<close>,
  over the list of pairs, with the index and the list built so far.
\<close>

fun points_loop :: "nat \<Rightarrow> (json \<times> json) list \<Rightarrow> json list \<Rightarrow> json list" where
  "points_loop i [] points = points"
| "points_loop i ((vector, meta) # rest) points =
     points_loop (Suc i) rest (points @ [point i vector meta])"

text \<open>
  The start of \<open>insert_vectors\<close>, up to the payload of the PUT:
  \<open>if metadata is None: metadata = [{}] * len(vectors)\<close>, then the loop over
  \<open>zip(vectors, metadata)\<close>, which stops with the shorter of the two.
\<close>

definition build_payload :: "json \<Rightarrow> json \<Rightarrow> py_error + json" where
  "build_payload vectors metadata =
     (case (if metadata = JNull then
              (case py_len vectors of
                 Inl e \<Rightarrow> Inl e
               | Inr n \<Rightarrow> Inr (JArray (replicate n (JObject []))))
            else Inr metadata) of
        Inl e \<Rightarrow> Inl e
      | Inr metadata1 \<Rightarrow>
          (case py_iter vectors of
             Inl e \<Rightarrow> Inl e
           | Inr vs \<Rightarrow>
               (case py_iter metadata1 of
                  Inl e \<Rightarrow> Inl e
                | Inr ms \<Rightarrow>
                    Inr (JObject [(''points'', JArray (points_loop 0 (zip vs ms) []))]))))"

definition insert_failed :: "py_runtime \<Rightarrow> py_error \<Rightarrow> json" where
  "insert_failed R e =
     JObject [(''error'', JString (''Insert vectors failed: '' @ str_exception R e))]"

text \<open>
  \<open>insert_vectors\<close>: the payload is PUT, and the answer is reshaped with
  \<open>inserted_count = len(vectors)\<close>. Every exception inside is turned into the error
  dictionary by the handler's own \<open>except\<close>.
\<close>

definition insert_vectors ::
  "py_runtime \<Rightarrow> 'w qdrant_server \<Rightarrow> json \<Rightarrow> json \<Rightarrow> 'w \<Rightarrow> json \<times> 'w" where
  "insert_vectors R S vectors metadata w =
     (case build_payload vectors metadata of
        Inl e \<Rightarrow> (insert_failed R e, w)
      | Inr payload \<Rightarrow>
          (case put_points S payload w of
             (Inl e, w1) \<Rightarrow> (insert_failed R e, w1)
           | (Inr data, w1) \<Rightarrow>
               (case py_len vectors of
                  Inl e \<Rightarrow> (insert_failed R e, w1)
                | Inr n \<Rightarrow>
                    (case py_get data ''status'' (JString ''unknown'') of
                       Inl e \<Rightarrow> (insert_failed R e, w1)
                     | Inr status \<Rightarrow>
                         (case py_get data ''result'' (JObject []) of
                            Inl e \<Rightarrow> (insert_failed R e, w1)
                          | Inr result \<Rightarrow>
                              (JObject [(''inserted_count'', JInt (int n)),
                                        (''collection'', JString collection_name),
                                        (''status'', status),
                                        (''result'', result),
                                        (''timestamp'', JString (isoformat_now S w1))],
                               w1))))))"

text \<open>\<open>QdrantMCPServer.handle_request\<close>\<close>

definition Qdrant_handle_request ::
  "py_runtime \<Rightarrow> 'w qdrant_server \<Rightarrow> json \<Rightarrow> json \<Rightarrow> 'w \<Rightarrow> json \<times> 'w" where
  "Qdrant_handle_request R S method params w =
     except_to_error R
       (if method = JString ''qdrant_health'' then qdrant_health_check S w
        else if method = JString ''qdrant_collections'' then list_collections S w
        else if method = JString ''qdrant_create_collection'' then
          (case py_get params ''collection_name'' (JString collection_name) of
             Inl e \<Rightarrow> (Inl e, w)
           | Inr name \<Rightarrow> create_collection S name w)
        else if method = JString ''qdrant_insert_vectors'' then
          (case py_get params ''vectors'' (JArray []) of
             Inl e \<Rightarrow> (Inl e, w)
           | Inr vectors \<Rightarrow>
               (case py_get params ''metadata'' (JArray []) of
                  Inl e \<Rightarrow> (Inl e, w)
                | Inr metadata \<Rightarrow>
                    (case insert_vectors R S vectors metadata w of
                       (result, w1) \<Rightarrow> (Inr result, w1))))
        else if method = JString ''qdrant_search'' then
          (case py_get params ''query_vector'' (JArray []) of
             Inl e \<Rightarrow> (Inl e, w)
           | Inr query_vector \<Rightarrow>
               (case py_get params ''limit'' (JInt 5) of
                  Inl e \<Rightarrow> (Inl e, w)
                | Inr limit \<Rightarrow> search_vectors S query_vector limit w))
        else if method = JString ''qdrant_collections_info'' then get_collections_info S w
        else (Inr (unknown_method R method), w))"

definition Qdrant_main ::
  "py_runtime \<Rightarrow> 'w qdrant_server \<Rightarrow> read_result list \<Rightarrow> 'w \<Rightarrow> json list \<times> 'w" where
  "Qdrant_main R S inp w = mcp_main R (Qdrant_handle_request R S) inp w"


subsection \<open>Values for the parameters in closed examples\<close>

text \<open>
  \<open>deeply_nested\<close> is the text of 100000 opening brackets, on which \<open>json.loads\<close>
  raises \<open>RecursionError\<close>. \<open>example_runtime\<close> agrees with \<open>json.loads\<close> on the
  texts the examples send: \<open>{}\<close>, the empty object; \<open>deeply_nested\<close>; and
  \<open>garbage\<close>, which raises \<open>JSONDecodeError\<close>.
\<close>

definition deeply_nested :: pystr where
  "deeply_nested = replicate 100000 0x5B"

definition example_runtime :: py_runtime where
  "example_runtime =
     \<lparr>json_loads =
        (\<lambda>s. if s = ascii ''{}'' then Loaded (JObject [])
             else if s = deeply_nested then
               LoadsRaised (Raised ''maximum recursion depth exceeded while decoding a JSON array from a unicode string'')
             else JSONDecodeError),
      str_value = (\<lambda>v. ''None''),
      str_exception = (\<lambda>e. case e of Raised m \<Rightarrow> m | _ \<Rightarrow> ''error'')\<rparr>"

text \<open>
  The world of the example servers counts the HTTP round trips made; every handler of
  theirs fails to connect, and the vector store answers a PUT of points with
  \<open>{"status": "ok"}\<close>.
\<close>

definition unreachable :: "nat \<Rightarrow> (py_error + json) \<times> nat" where
  "unreachable w = (Inl (Raised ''connection refused''), Suc w)"

definition example_localai :: "nat localai_server" where
  "example_localai =
     \<lparr>embedding_health_check = unreachable,
      generate_embeddings = (\<lambda>texts. unreachable),
      generate_single_embedding = (\<lambda>txt. unreachable),
      get_models = unreachable\<rparr>"

definition example_qdrant :: "nat qdrant_server" where
  "example_qdrant =
     \<lparr>qdrant_health_check = unreachable,
      list_collections = unreachable,
      create_collection = (\<lambda>name. unreachable),
      search_vectors = (\<lambda>query_vector limit. unreachable),
      get_collections_info = unreachable,
      put_points = (\<lambda>payload w. (Inr (JObject [(''status'', JString ''ok'')]), Suc w)),
      isoformat_now = (\<lambda>w. ''2025-01-01T00:00:00'')\<rparr>"

text \<open>
  A vector store whose world is the list of the payloads PUT to it so far, and which
  answers every PUT with \<open>{"status": "ok"}\<close>.
\<close>

definition recording_qdrant :: "json list qdrant_server" where
  "recording_qdrant =
     \<lparr>qdrant_health_check = (\<lambda>w. (Inl (Raised ''connection refused''), w)),
      list_collections = (\<lambda>w. (Inl (Raised ''connection refused''), w)),
      create_collection = (\<lambda>name w. (Inl (Raised ''connection refused''), w)),
      search_vectors = (\<lambda>query_vector limit w. (Inl (Raised ''connection refused''), w)),
      get_collections_info = (\<lambda>w. (Inl (Raised ''connection refused''), w)),
      put_points = (\<lambda>payload w. (Inr (JObject [(''status'', JString ''ok'')]), w @ [payload])),
      isoformat_now = (\<lambda>w. ''2025-01-01T00:00:00'')\<rparr>"

section \<open>Lemmas and claims: the quantized-hash fallback\<close>

lemma encode_utf8_ascii:
  "list_all (\<lambda>c. (of_char c :: nat) < 128) s \<Longrightarrow> encode_utf8 (ascii s) = Inr s"
proof -
  assume a: "list_all (\<lambda>c. (of_char c :: nat) < 128) s"
  then have n: "\<not> list_ex is_surrogate (ascii s)"
    by (induction s) (simp_all add: ascii_def is_surrogate_def)
  from a have "concat (map utf8_bytes (ascii s)) = s"
    by (induction s) (simp_all add: ascii_def utf8_bytes_def)
  with n show ?thesis by (simp add: encode_utf8_def)
qed

lemma encode_utf8_surrogate:
  "list_ex is_surrogate t \<Longrightarrow> encode_utf8 t = Inl UnicodeEncodeError"
  by (simp add: encode_utf8_def)

lemma encode_utf8_hello_world: "encode_utf8 (ascii ''hello world'') = Inr ''hello world''"
  by (rule encode_utf8_ascii) simp

lemma encode_utf8_hello: "encode_utf8 (ascii ''hello'') = Inr ''hello''"
  by (rule encode_utf8_ascii) simp

lemma not_surrogate_ascii:
  "list_all (\<lambda>c. (of_char c :: nat) < 128) s \<Longrightarrow> \<not> list_ex is_surrogate (ascii s)"
  by (induction s) (simp_all add: ascii_def is_surrogate_def)

lemma and_255_nat: "(x::nat) AND 0xFF = x mod 256"
proof -
  have "x AND mask 8 = take_bit 8 x" by (simp only: take_bit_eq_mask)
  then show ?thesis by (simp add: take_bit_eq_mod mask_eq_exp_minus_1)
qed

lemma extend_loop_concat:
  "extend_loop h is acc = acc @ concat (map (\<lambda>i. block (hash_val (hex_slice h i))) is)"
  by (induction "is" arbitrary: acc) simp_all

lemma length_hexdigest: "length (hexdigest w) = 32"
  by (simp add: hexdigest_def)

lemma length_block: "length (block v) = 4"
  by (simp add: block_def)

lemma length_concat_blocks:
  "(\<And>x. length (f x) = 4) \<Longrightarrow> length (concat (map f xs)) = 4 * length xs"
  by (induction xs) simp_all

lemma nth_concat_blocks:
  "(\<And>x. length (f x) = 4) \<Longrightarrow> j < 4 * length xs \<Longrightarrow>
     concat (map f xs) ! j = f (xs ! (j div 4)) ! (j mod 4)"
proof (induction xs arbitrary: j)
  case Nil then show ?case by simp
next
  case (Cons x xs)
  show ?case
  proof (cases "j < 4")
    case True
    with Cons.prems(1) show ?thesis by (simp add: nth_append)
  next
    case False
    then have j4: "j - 4 < 4 * length xs" using Cons.prems(2) by simp
    have d: "j div 4 = Suc ((j - 4) div 4)" using False
      by (metis One_nat_def div_greater_zero_iff le_div_geq not_less zero_less_numeral add.commute plus_1_eq_Suc)
    have m: "j mod 4 = (j - 4) mod 4" using False by (simp add: le_mod_geq)
    show ?thesis using False Cons.prems(1) Cons.IH[OF Cons.prems(1) j4]
      by (simp add: nth_append d m)
  qed
qed

text \<open>
  The vector the loop builds from a digest, as the concatenation of its blocks.
\<close>

definition blocks_of :: "string \<Rightarrow> real list" where
  "blocks_of hex_digest =
     concat (map (\<lambda>i. block (hash_val (hex_slice hex_digest i))) (range_step4 2560))"

lemma length_blocks_of: "length (blocks_of h) = 2560"
proof -
  have "length (concat (map (\<lambda>i. block (hash_val (hex_slice h i))) (range_step4 2560)))
      = 4 * length (range_step4 2560)"
    by (rule length_concat_blocks) (rule length_block)
  then show ?thesis by (simp add: blocks_of_def range_step4_def)
qed

lemma fallback_eq:
  "get_fallback_embeddings md5 t =
     (if list_ex is_surrogate t then Inl UnicodeEncodeError
      else Inr (blocks_of (hexdigest (md5 (concat (map utf8_bytes t))))))"
proof -
  have "take 2560 (blocks_of h) = blocks_of h" for h
    by (simp add: length_blocks_of)
  then show ?thesis
    by (simp add: get_fallback_embeddings_def encode_utf8_def extend_loop_concat
          blocks_of_def[symmetric])
qed

lemma fallback_unencodable:
  "list_ex is_surrogate t \<Longrightarrow> get_fallback_embeddings md5 t = Inl UnicodeEncodeError"
  by (simp add: fallback_eq)

lemma fallback_encodable:
  "\<not> list_ex is_surrogate t \<Longrightarrow>
     get_fallback_embeddings md5 t = Inr (blocks_of (hexdigest (md5 (concat (map utf8_bytes t)))))"
  by (simp add: fallback_eq)

lemma fallback_returned:
  "get_fallback_embeddings md5 t = Inr v \<Longrightarrow>
     \<not> list_ex is_surrogate t \<and> v = blocks_of (hexdigest (md5 (concat (map utf8_bytes t))))"
  by (simp add: fallback_eq split: if_splits)

lemma nth_blocks_of:
  assumes "j < 2560"
  shows "blocks_of h ! j = block (hash_val (hex_slice h (4 * (j div 4)))) ! (j mod 4)"
proof -
  have l: "length (range_step4 2560) = 640" by (simp add: range_step4_def)
  have j: "j < 4 * length (range_step4 2560)" using assms l by simp
  have k: "j div 4 < 640" using assms by simp
  have r: "range_step4 2560 ! (j div 4) = 4 * (j div 4)"
    using k by (simp add: range_step4_def)
  show ?thesis
    unfolding blocks_of_def
    using nth_concat_blocks[of "\<lambda>i. block (hash_val (hex_slice h i))", OF length_block j]
    by (simp add: r)
qed

lemma hex_val_hex_digit: "n < 16 \<Longrightarrow> hex_val (hex_digit n) = Some n"
proof -
  assume n: "n < 16"
  have "list_all (\<lambda>k. hex_val (hex_digit k) = Some k) [0..<16]"
    by (simp add: upt_rec hex_val_def hex_digit_def)
  then show ?thesis using n by (simp add: list_all_iff)
qed

lemma hex_val_zero: "hex_val (CHR ''0'') = Some 0"
  by (simp add: hex_val_def)

lemma hex_fold_append:
  "hex_fold acc (s @ t) = (case hex_fold acc s of None \<Rightarrow> None | Some a \<Rightarrow> hex_fold a t)"
  by (induction s arbitrary: acc) (simp_all split: option.splits)

lemma hex_fold_zeros: "hex_fold acc (replicate n (CHR ''0'')) = Some (acc * 16 ^ n)"
  by (induction n arbitrary: acc) (simp_all add: hex_val_zero)

definition is_hex :: "char \<Rightarrow> bool" where
  "is_hex c = (hex_val c \<noteq> None)"

lemma hex_fold_digits:
  "list_all is_hex s \<Longrightarrow> \<exists>v. hex_fold acc s = Some v \<and> v < (acc + 1) * 16 ^ length s"
proof (induction s arbitrary: acc)
  case Nil then show ?case by simp
next
  case (Cons c cs)
  then obtain d where d: "hex_val c = Some d" by (auto simp: is_hex_def)
  have dl: "d < 16" using d by (auto simp: hex_val_def Let_def split: if_splits)
  from Cons obtain v where v: "hex_fold (acc * 16 + d) cs = Some v" "v < (acc * 16 + d + 1) * 16 ^ length cs"
    by fastforce
  have "(acc * 16 + d + 1) * 16 ^ length cs \<le> ((acc + 1) * 16) * 16 ^ length cs"
    using dl by (intro mult_le_mono1) simp
  with v(2) have "v < ((acc + 1) * 16) * 16 ^ length cs" by linarith
  moreover have "(acc + 1) * 16 ^ length (c # cs) = ((acc + 1) * 16) * 16 ^ length cs"
    by (simp add: algebra_simps)
  ultimately have "v < (acc + 1) * 16 ^ length (c # cs)" by simp
  moreover have "hex_fold acc (c # cs) = Some v" using v(1) d by simp
  ultimately show ?case by blast
qed

lemma hexdigest_is_hex: "list_all is_hex (hexdigest w)"
proof -
  have "\<And>k. unat (take_bit 4 (drop_bit (4 * (31 - k)) w)) < 16"
  proof -
    fix k
    have "take_bit 4 (unat (drop_bit (4 * (31 - k)) w)) < 2 ^ 4"
      by (rule take_bit_nat_less_exp)
    then have "unat (take_bit 4 (drop_bit (4 * (31 - k)) w)) < 2 ^ 4"
      by (simp only: unsigned_take_bit_eq)
    then show "unat (take_bit 4 (drop_bit (4 * (31 - k)) w)) < 16" by simp
  qed
  then show ?thesis
    by (simp add: hexdigest_def list_all_iff is_hex_def hex_val_hex_digit)
qed

lemma hex_slice_past:
  "32 \<le> i \<Longrightarrow> hex_slice (hexdigest w) i = replicate (8 + (i - 32)) (CHR ''0'')"
proof -
  assume i: "32 \<le> i"
  have "nat (8 - (32 - int i)) = 8 + (i - 32)" using i by linarith
  then show ?thesis using i by (simp add: hex_slice_def length_hexdigest)
qed

lemma hash_val_past: "32 \<le> i \<Longrightarrow> hash_val (hex_slice (hexdigest w) i) = 0"
  by (simp add: hex_slice_past hash_val_def int_of_hex_def hex_fold_zeros)

lemma block_zero: "block 0 = [-1, -1, -1, -1]"
  by (simp add: block_def byte_float_def)

lemma hex_slice_28:
  "hex_slice (hexdigest w) 28 = drop 28 (hexdigest w) @ replicate 4 (CHR ''0'')"
  by (simp add: hex_slice_def length_hexdigest)

lemma hash_val_28: "\<exists>a. hash_val (hex_slice (hexdigest w) 28) = a * 65536"
proof -
  have "list_all is_hex (drop 28 (hexdigest w))"
    using hexdigest_is_hex[of w] by (simp add: list_all_iff) (meson in_set_dropD)
  then obtain v where v: "hex_fold 0 (drop 28 (hexdigest w)) = Some v"
    using hex_fold_digits by blast
  have ne: "drop 28 (hexdigest w) @ replicate 4 (CHR ''0'') \<noteq> []" by simp
  have "hash_val (hex_slice (hexdigest w) 28) = v * 16 ^ 4"
    unfolding hex_slice_28 hash_val_def int_of_hex_def
    using ne v by (simp only: hex_fold_append hex_fold_zeros if_False option.simps)
  then show ?thesis by auto
qed

lemma block_low_zero:
  "block (a * 65536) ! 2 = -1 \<and> block (a * 65536) ! 3 = -1"
proof -
  have 1: "drop_bit 8 (a * 65536) = a * 256"
    by (simp add: drop_bit_eq_div)
  show ?thesis
    by (simp add: block_def and_255_nat 1 byte_float_def del: and_numerals)
qed

lemma blocks_tail:
  assumes "30 \<le> j" "j < 2560"
  shows "blocks_of (hexdigest w) ! j = -1"
proof (cases "32 \<le> j")
  case True
  then have "32 \<le> 4 * (j div 4)" by presburger
  then show ?thesis
    using assms(2) by (simp add: nth_blocks_of hash_val_past block_zero) (auto simp: nth_Cons' )
next
  case False
  then have j: "j = 30 \<or> j = 31" using assms(1) by auto
  obtain a where a: "hash_val (hex_slice (hexdigest w) 28) = a * 65536"
    using hash_val_28 by blast
  from j show ?thesis
  proof
    assume "j = 30"
    then have "4 * (j div 4) = 28" "j mod 4 = 2" by simp_all
    then show ?thesis using assms(2) block_low_zero[of a] by (simp add: nth_blocks_of a)
  next
    assume "j = 31"
    then have "4 * (j div 4) = 28" "j mod 4 = 3" by simp_all
    then show ?thesis using assms(2) block_low_zero[of a] by (simp add: nth_blocks_of a)
  qed
qed

lemma drop30_blocks:
  "drop 30 (blocks_of (hexdigest w)) = replicate 2530 (-1)"
proof (rule nth_equalityI)
  show "length (drop 30 (blocks_of (hexdigest w))) = length (replicate 2530 (-1::real))"
    by (simp add: length_blocks_of)
next
  fix i assume "i < length (drop 30 (blocks_of (hexdigest w)))"
  then have i: "i < 2530" by (simp add: length_blocks_of)
  then have "blocks_of (hexdigest w) ! (30 + i) = -1"
    by (intro blocks_tail) simp_all
  then show "drop 30 (blocks_of (hexdigest w)) ! i = replicate 2530 (-1) ! i"
    using i by (simp add: length_blocks_of)
qed

lemma agree_count:
  "length xs = length ys \<Longrightarrow> drop n xs = drop n ys \<Longrightarrow>
     length xs - n \<le> length (filter (\<lambda>(a, b). a = b) (zip xs ys))"
proof -
  assume l: "length xs = length ys" and d: "drop n xs = drop n ys"
  have "zip xs ys = zip (take n xs) (take n ys) @ zip (drop n xs) (drop n ys)"
    by (metis append_take_drop_id l length_take zip_append)
  moreover have "filter (\<lambda>(a, b). a = b) (zip (drop n ys) (drop n ys)) = zip (drop n ys) (drop n ys)"
    by (rule filter_True) (auto simp: zip_same)
  ultimately show ?thesis using d l by simp
qed

lemma blocks_agree:
  "2530 \<le> length (filter (\<lambda>(a, b). a = b)
             (zip (blocks_of (hexdigest w)) (blocks_of (hexdigest w'))))"
proof -
  have "drop 30 (blocks_of (hexdigest w)) = drop 30 (blocks_of (hexdigest w'))"
    by (simp only: drop30_blocks)
  from agree_count[OF _ this] show ?thesis
    by (simp add: length_blocks_of)
qed

text \<open>
  Claim C10. Every vector the quantized-hash fallback returns has 2560 components and
  every component from index 30 on equals \<open>-1.0\<close>: the 32 characters of the digest
  reach only components 0 to 29, and the \<open>0\<close> padding maps to \<open>-1.0\<close>. Hence the
  vectors returned for any two texts agree on at least 2530 of their 2560 components. A
  vector is returned for every text that UTF-8 can encode.
\<close>

theorem fallback_constant_beyond_digest:
  "(get_fallback_embeddings md5 t = Inr v \<longrightarrow>
      length v = 2560 \<and> drop 30 v = replicate 2530 (-1)) \<and>
   (get_fallback_embeddings md5 t = Inr v \<and> get_fallback_embeddings md5 t' = Inr v' \<longrightarrow>
      2530 \<le> length (filter (\<lambda>(a, b). a = b) (zip v v'))) \<and>
   (\<not> list_ex is_surrogate t \<longrightarrow> (\<exists>u. get_fallback_embeddings md5 t = Inr u))"
proof (intro conjI impI)
  assume "get_fallback_embeddings md5 t = Inr v"
  then have "v = blocks_of (hexdigest (md5 (concat (map utf8_bytes t))))"
    using fallback_returned by blast
  then show "length v = 2560" and "drop 30 v = replicate 2530 (-1)"
    by (simp_all only: length_blocks_of drop30_blocks)
next
  assume a: "get_fallback_embeddings md5 t = Inr v \<and> get_fallback_embeddings md5 t' = Inr v'"
  have "v = blocks_of (hexdigest (md5 (concat (map utf8_bytes t))))"
    using fallback_returned[OF conjunct1[OF a]] by blast
  moreover have "v' = blocks_of (hexdigest (md5 (concat (map utf8_bytes t'))))"
    using fallback_returned[OF conjunct2[OF a]] by blast
  ultimately show "2530 \<le> length (filter (\<lambda>(a, b). a = b) (zip v v'))"
    by (simp only: blocks_agree)
next
  assume "\<not> list_ex is_surrogate t"
  then show "\<exists>u. get_fallback_embeddings md5 t = Inr u"
    by (simp add: fallback_encodable)
qed

lemma fallback_hello_world:
  "get_fallback_embeddings known_md5 (ascii ''hello world'')
     = Inr (blocks_of (hexdigest (known_md5 ''hello world'')))"
proof -
  have "concat (map utf8_bytes (ascii ''hello world'')) = ''hello world''"
    using encode_utf8_hello_world by (simp add: encode_utf8_def split: if_splits)
  moreover have "\<not> list_ex is_surrogate (ascii ''hello world'')"
    by (rule not_surrogate_ascii) simp
  ultimately show ?thesis by (simp add: fallback_eq)
qed

lemma fallback_hello:
  "get_fallback_embeddings known_md5 (ascii ''hello'')
     = Inr (blocks_of (hexdigest (known_md5 ''hello'')))"
proof -
  have "concat (map utf8_bytes (ascii ''hello'')) = ''hello''"
    using encode_utf8_hello by (simp add: encode_utf8_def split: if_splits)
  moreover have "\<not> list_ex is_surrogate (ascii ''hello'')"
    by (rule not_surrogate_ascii) simp
  ultimately show ?thesis by (simp add: fallback_eq)
qed

text \<open>
  Claim C10 at the texts \<open>hello world\<close> and \<open>hello\<close>: both vectors are returned,
  both are \<open>-1.0\<close> from index 30 on, and they agree on at least 2530 components.
\<close>

theorem fallback_constant_beyond_digest_witness:
  "\<exists>v v'. get_fallback_embeddings known_md5 (ascii ''hello world'') = Inr v \<and>
     get_fallback_embeddings known_md5 (ascii ''hello'') = Inr v' \<and>
     length v = 2560 \<and> drop 30 v = replicate 2530 (-1) \<and>
     2530 \<le> length (filter (\<lambda>(a, b). a = b) (zip v v'))"
proof -
  let ?v = "blocks_of (hexdigest (known_md5 ''hello world''))"
  let ?v' = "blocks_of (hexdigest (known_md5 ''hello''))"
  note c = fallback_constant_beyond_digest[where ?md5.0 = known_md5 and t = "ascii ''hello world''"
      and t' = "ascii ''hello''" and v = ?v and v' = ?v']
  from c fallback_hello_world have "length ?v = 2560 \<and> drop 30 ?v = replicate 2530 (-1)"
    by blast
  moreover from c fallback_hello_world fallback_hello
  have "2530 \<le> length (filter (\<lambda>(a, b). a = b) (zip ?v ?v'))"
    by blast
  ultimately show ?thesis using fallback_hello_world fallback_hello by blast
qed

lemma block_nth:
  "m < 4 \<Longrightarrow> block v ! m = byte_float (drop_bit (8 * (3 - m)) v AND 0xFF)"
proof -
  assume "m < 4"
  then have "m = 0 \<or> m = 1 \<or> m = 2 \<or> m = 3" by arith
  then show ?thesis by (elim disjE) (simp_all add: block_def del: and_numerals)
qed

lemma byte_float_range: "-1 \<le> byte_float (x AND 0xFF) \<and> byte_float (x AND 0xFF) \<le> 1"
proof -
  have "x mod 256 < 256" by simp
  then have "real (x mod 256) \<le> 255" by linarith
  then show ?thesis by (simp add: and_255_nat byte_float_def del: and_numerals)
qed

lemma hash_val_zeros: "hash_val (replicate n (CHR ''0'')) = 0"
  by (simp add: hash_val_def int_of_hex_def hex_fold_zeros)

lemma hash_val_padded:
  "length h = 32 \<Longrightarrow> hash_val (hex_slice h i) = hash_val (padded_window h i)"
proof -
  assume l: "length h = 32"
  consider "i + 8 \<le> 32" | "24 < i" "i \<le> 32" | "32 < i" by linarith
  then show ?thesis
  proof cases
    case 1 then show ?thesis using l by (simp add: hex_slice_def padded_window_def)
  next
    case 2
    then have "nat (8 - (32 - int i)) = 8 - (32 - i)" by linarith
    then show ?thesis using 2 l by (simp add: hex_slice_def padded_window_def)
  next
    case 3
    then have "hex_slice h i = replicate (nat (8 - (32 - int i))) (CHR ''0'')"
      using l by (simp add: hex_slice_def)
    moreover have "padded_window h i = replicate 8 (CHR ''0'')"
      using 3 l by (simp add: padded_window_def)
    ultimately show ?thesis by (simp only: hash_val_zeros)
  qed
qed

lemma blocks_padded:
  assumes j: "j < 2560"
  shows "blocks_of (hexdigest w) ! j =
           byte_float (drop_bit (8 * (3 - j mod 4))
                         (hash_val (padded_window (hexdigest w) (4 * (j div 4)))) AND 0xFF)"
proof -
  have m: "j mod 4 < 4" by simp
  show ?thesis
    using j by (simp only: nth_blocks_of block_nth[OF m] hash_val_padded[OF length_hexdigest])
qed

text \<open>
  Claim C7, as amended. For every text that UTF-8 can encode, the quantized-hash
  fallback returns a vector of exactly 2560 components; component \<open>j\<close> is
  \<open>byte / 127.5 - 1.0\<close> for the byte at position \<open>j mod 4\<close> (most significant first)
  of the value of the window at offset \<open>4 * (j div 4)\<close> of the digest of the encoded
  text, and lies in \<open>[-1, 1]\<close>. A window that runs past the end of the digest is padded
  with \<open>0\<close> characters; the digest is not recycled.
\<close>

theorem quantized_hash_zero_padded:
  "\<not> list_ex is_surrogate t \<longrightarrow>
     (\<exists>v. get_fallback_embeddings md5 t = Inr v \<and> length v = 2560 \<and>
        (\<forall>j<2560.
           v ! j =
             byte_float (drop_bit (8 * (3 - j mod 4))
               (hash_val (padded_window (hexdigest (md5 (concat (map utf8_bytes t))))
                            (4 * (j div 4)))) AND 0xFF)
           \<and> -1 \<le> v ! j \<and> v ! j \<le> 1))"
proof
  assume e: "\<not> list_ex is_surrogate t"
  let ?w = "md5 (concat (map utf8_bytes t))"
  let ?v = "blocks_of (hexdigest ?w)"
  have r: "get_fallback_embeddings md5 t = Inr ?v" using e by (rule fallback_encodable)
  have l: "length ?v = 2560" by (rule length_blocks_of)
  have c: "\<forall>j<2560.
           ?v ! j =
             byte_float (drop_bit (8 * (3 - j mod 4))
               (hash_val (padded_window (hexdigest ?w) (4 * (j div 4)))) AND 0xFF)
           \<and> -1 \<le> ?v ! j \<and> ?v ! j \<le> 1"
  proof (intro allI impI conjI)
    fix j :: nat assume j: "j < 2560"
    show p: "?v ! j =
             byte_float (drop_bit (8 * (3 - j mod 4))
               (hash_val (padded_window (hexdigest ?w) (4 * (j div 4)))) AND 0xFF)"
      using j by (rule blocks_padded)
    show "-1 \<le> ?v ! j" unfolding p using byte_float_range by blast
    show "?v ! j \<le> 1" unfolding p using byte_float_range by blast
  qed
  from r l c show "\<exists>v. get_fallback_embeddings md5 t = Inr v \<and> length v = 2560 \<and>
        (\<forall>j<2560.
           v ! j =
             byte_float (drop_bit (8 * (3 - j mod 4))
               (hash_val (padded_window (hexdigest ?w) (4 * (j div 4)))) AND 0xFF)
           \<and> -1 \<le> v ! j \<and> v ! j \<le> 1)"
    by (intro exI conjI)
qed

lemma hexdigest_hello_world:
  "hexdigest (known_md5 ''hello world'') = ''5eb63bbbe01eeed093cb22bb8f5acdc3''"
  by (simp add: known_md5_def hexdigest_def hex_digit_def upt_rec drop_bit_eq_div take_bit_eq_mod)

lemma nth_cyclic:
  assumes "j < 2560"
  shows "quantized_hash_cyclic h ! j = block (hash_val (cyclic_window h (4 * (j div 4)))) ! (j mod 4)"
proof -
  have l: "length (range_step4 2560) = 640" by (simp add: range_step4_def)
  have j: "j < 4 * length (range_step4 2560)" using assms l by simp
  have k: "j div 4 < 640" using assms by simp
  have r: "range_step4 2560 ! (j div 4) = 4 * (j div 4)"
    using k by (simp add: range_step4_def)
  show ?thesis
    unfolding quantized_hash_cyclic_def
    using nth_concat_blocks[of "\<lambda>i. block (hash_val (cyclic_window h i))", OF length_block j]
    by (simp add: r)
qed

lemma cyc32: "cyclic_window ''5eb63bbbe01eeed093cb22bb8f5acdc3'' 32 = ''5eb63bbb''"
  by (simp add: cyclic_window_def upt_rec)

lemma hv: "hash_val ''5eb63bbb'' = 0x5eb63bbb"
  by (simp add: hash_val_def int_of_hex_def hex_val_def)

text \<open>
  Claim C7 as stated fails: with cyclic windows, the window at offset 32 of the digest of
  \<open>hello world\<close> would be its first eight characters \<open>5eb63bbb\<close> and component 32
  would be \<open>94 / 127.5 - 1.0\<close>; the program yields \<open>-1.0\<close> there.
\<close>

theorem quantized_hash_not_cyclic:
  "\<exists>v. get_fallback_embeddings known_md5 (ascii ''hello world'') = Inr v \<and>
     v ! 32 = -1 \<and>
     quantized_hash_cyclic (hexdigest (known_md5 ''hello world'')) ! 32 = 94 / 127.5 - 1 \<and>
     v \<noteq> quantized_hash_cyclic (hexdigest (known_md5 ''hello world''))"
proof -
  let ?v = "blocks_of (hexdigest (known_md5 ''hello world''))"
  let ?c = "quantized_hash_cyclic (hexdigest (known_md5 ''hello world''))"
  have a: "?v ! 32 = -1"
    by (rule blocks_tail) simp_all
  have b: "?c ! 32 = 94 / 127.5 - 1"
    by (simp add: nth_cyclic hexdigest_hello_world cyc32 hv block_def byte_float_def drop_bit_eq_div)
  have "?v ! 32 \<noteq> ?c ! 32"
    unfolding a b by simp
  then have "?v \<noteq> ?c"
    by metis
  with a b fallback_hello_world show ?thesis by blast
qed

lemma replicate_8_zero: "replicate 8 (CHR ''0'') = ''00000000''"
  by (simp add: numeral_eq_Suc)

text \<open>
  The amended claim C7 at the text \<open>hello world\<close>: components 0 and 29 come from the
  digest bytes \<open>5e\<close> and \<open>c3\<close>, component 30 from the padding.
\<close>

theorem quantized_hash_zero_padded_witness:
  "\<not> list_ex is_surrogate (ascii ''hello world'') \<and>
   (\<exists>v. get_fallback_embeddings known_md5 (ascii ''hello world'') = Inr v \<and>
      length v = 2560 \<and> v ! 0 = 94 / 127.5 - 1 \<and> v ! 29 = 195 / 127.5 - 1 \<and> v ! 30 = -1)"
proof -
  have h0: "hash_val (padded_window ''5eb63bbbe01eeed093cb22bb8f5acdc3'' 0) = 0x5eb63bbb"
    by (simp add: padded_window_def replicate_8_zero hash_val_def int_of_hex_def hex_val_def)
  have h28: "hash_val (padded_window ''5eb63bbbe01eeed093cb22bb8f5acdc3'' 28) = 0xcdc30000"
    by (simp add: padded_window_def replicate_8_zero hash_val_def int_of_hex_def hex_val_def)
  have n: "\<not> list_ex is_surrogate (ascii ''hello world'')"
    by (rule not_surrogate_ascii) simp
  have u: "concat (map utf8_bytes (ascii ''hello world'')) = ''hello world''"
    using encode_utf8_hello_world by (simp add: encode_utf8_def split: if_splits)
  from quantized_hash_zero_padded[of "ascii ''hello world''" known_md5, THEN mp, OF n,
      unfolded u hexdigest_hello_world]
  obtain v where v: "get_fallback_embeddings known_md5 (ascii ''hello world'') = Inr v"
      "length v = 2560"
      "\<forall>j<2560.
           v ! j =
             byte_float (drop_bit (8 * (3 - j mod 4))
               (hash_val (padded_window ''5eb63bbbe01eeed093cb22bb8f5acdc3''
                            (4 * (j div 4)))) AND 0xFF)
           \<and> -1 \<le> v ! j \<and> v ! j \<le> 1"
    by (elim exE conjE)
  from v(3) have "v ! 0 = 94 / 127.5 - 1"
    by (simp add: h0 byte_float_def drop_bit_eq_div)
  moreover from v(3) have "v ! 29 = 195 / 127.5 - 1"
    by (simp add: h28 byte_float_def drop_bit_eq_div)
  moreover from v(3) have "v ! 30 = -1"
    by (simp add: h28 byte_float_def drop_bit_eq_div)
  ultimately show ?thesis using n v(1) v(2) by blast
qed

section \<open>Lemmas and claims: the embedding service\<close>

lemma seed_in_range:
  "\<exists>seed. int_of_hex (take 8 (hexdigest w)) = Some seed \<and> seed < 2 ^ 32"
proof -
  have "list_all is_hex (take 8 (hexdigest w))"
    using hexdigest_is_hex[of w] by (simp add: list_all_iff) (meson in_set_takeD)
  then obtain v where v: "hex_fold 0 (take 8 (hexdigest w)) = Some v"
      "v < (0 + 1) * 16 ^ length (take 8 (hexdigest w))"
    using hex_fold_digits by blast
  have l: "length (take 8 (hexdigest w)) = 8" by (simp add: length_hexdigest)
  then have ne: "take 8 (hexdigest w) \<noteq> []" by auto
  have "v < 2 ^ 32" using v(2) unfolding l by simp
  then show ?thesis using v(1) ne by (simp add: int_of_hex_def)
qed

lemma length_np_random_normal:
  "length (fst (np_random_normal L loc scale n g)) = n"
proof (induction n arbitrary: g)
  case 0 then show ?case by simp
next
  case (Suc n)
  obtain z g1 where a: "np_random_gauss L g = (z, g1)" by (cases "np_random_gauss L g")
  obtain zs g2 where b: "np_random_normal L loc scale n g1 = (zs, g2)"
    by (cases "np_random_normal L loc scale n g1")
  from Suc[of g1] b have "length zs = n" by simp
  then show ?case by (simp add: a b)
qed

lemma length_l2_normalize: "length (l2_normalize L v) = length v"
  by (simp add: l2_normalize_def)

lemma length_reconcile: "length (reconcile d v) = d"
  by (simp add: reconcile_def)

lemma deterministic_embedding_unencodable:
  "list_ex is_surrogate t \<Longrightarrow> deterministic_embedding L t d g = (Inl UnicodeEncodeError, g)"
  by (simp add: deterministic_embedding_def encode_utf8_def)

lemma deterministic_embedding_negative:
  assumes "\<not> list_ex is_surrogate t" "d < 0"
  shows "\<exists>seed. int_of_hex (take 8 (hexdigest (hashlib_md5 L (concat (map utf8_bytes t))))) = Some seed \<and>
     deterministic_embedding L t d g = (Inl ValueError, np_random_seed L seed)"
proof -
  obtain seed where s: "int_of_hex (take 8 (hexdigest (hashlib_md5 L (concat (map utf8_bytes t))))) = Some seed"
      "seed < 2 ^ 32"
    using seed_in_range by blast
  then show ?thesis using assms
    by (simp add: deterministic_embedding_def encode_utf8_def)
qed

lemma deterministic_embedding_eq:
  assumes "\<not> list_ex is_surrogate t" "0 \<le> d"
  shows "\<exists>seed. int_of_hex (take 8 (hexdigest (hashlib_md5 L (concat (map utf8_bytes t))))) = Some seed \<and>
     seed < 2 ^ 32 \<and>
     deterministic_embedding L t d g =
       (Inr (l2_normalize L (map Fin (fst (np_random_normal L 0 0.1 (nat d) (np_random_seed L seed))))),
        snd (np_random_normal L 0 0.1 (nat d) (np_random_seed L seed)))"
proof -
  obtain seed where s: "int_of_hex (take 8 (hexdigest (hashlib_md5 L (concat (map utf8_bytes t))))) = Some seed"
      "seed < 2 ^ 32"
    using seed_in_range by blast
  then show ?thesis using assms
    by (auto simp: deterministic_embedding_def encode_utf8_def split: prod.splits)
qed

lemma deterministic_embedding_total:
  assumes "\<not> list_ex is_surrogate t" "0 \<le> d"
  shows "\<exists>v g'. deterministic_embedding L t d g = (Inr v, g') \<and> length v = nat d"
  using deterministic_embedding_eq[OF assms, of L g]
  by (auto simp: length_l2_normalize length_np_random_normal)





lemma get_embeddings_not_ready:
  "model_type G \<noteq> ''ollama_qwen3'' \<Longrightarrow>
     get_embeddings L ollama G t g = (Inl (HTTPException 503), g)"
  by (simp add: get_embeddings_def)

lemma get_embeddings_success:
  "model_type G = ''ollama_qwen3'' \<Longrightarrow> ollama t = Body (Some e) \<Longrightarrow>
     get_embeddings L ollama G t g = (Inr (l2_normalize L (reconcile (QWEN3_EMBEDDING_DIM G) e)), g)"
  by (simp add: get_embeddings_def embedding_vector_of_def)

lemma get_embeddings_fallback:
  "model_type G = ''ollama_qwen3'' \<Longrightarrow> ollama t = RequestFailed \<or> ollama t = Body None \<Longrightarrow>
     get_embeddings L ollama G t g = deterministic_embedding L t 2560 g"
  by (auto simp: get_embeddings_def embedding_vector_of_def)

lemma get_embeddings_ready_cases:
  assumes "model_type G = ''ollama_qwen3''"
  shows "(\<exists>e. ollama t = Body (Some e) \<and>
            get_embeddings L ollama G t g = (Inr (l2_normalize L (reconcile (QWEN3_EMBEDDING_DIM G) e)), g))
         \<or> ((ollama t = RequestFailed \<or> ollama t = Body None) \<and>
            get_embeddings L ollama G t g = deterministic_embedding L t 2560 g)"
proof (cases "ollama t")
  case RequestFailed
  then show ?thesis using get_embeddings_fallback[OF assms, of ollama t L g] by simp
next
  case (Body b)
  show ?thesis
  proof (cases b)
    case None
    then show ?thesis using Body get_embeddings_fallback[OF assms, of ollama t L g] by simp
  next
    case (Some e)
    then show ?thesis using Body get_embeddings_success[OF assms, of ollama t e L g] by simp
  qed
qed

lemma get_embeddings_ready_total:
  assumes "model_type G = ''ollama_qwen3''"
    and "\<not> list_ex is_surrogate t \<or> (\<exists>e. ollama t = Body (Some e))"
  shows "\<exists>v g'. get_embeddings L ollama G t g = (Inr v, g')"
proof (cases "\<exists>e. ollama t = Body (Some e)")
  case True
  then obtain e where "ollama t = Body (Some e)" by blast
  from get_embeddings_success[where ollama = ollama and t = t and L = L and g = g,
      OF assms(1) this]
  show ?thesis by (intro exI)
next
  case False
  with assms(2) have n: "\<not> list_ex is_surrogate t" by blast
  have "\<exists>v g'. deterministic_embedding L t 2560 g = (Inr v, g') \<and> length v = nat 2560"
    by (rule deterministic_embedding_total[OF n]) simp
  with False get_embeddings_ready_cases[OF assms(1), of ollama t L g] show ?thesis by auto
qed

lemma get_embeddings_surrogate_fallback:
  "model_type G = ''ollama_qwen3'' \<Longrightarrow> ollama t = RequestFailed \<or> ollama t = Body None \<Longrightarrow>
     list_ex is_surrogate t \<Longrightarrow> get_embeddings L ollama G t g = (Inl UnicodeEncodeError, g)"
  by (simp only: get_embeddings_fallback deterministic_embedding_unencodable)

lemma create_embedding_ok:
  "get_embeddings L ollama G (request_text rq) g = (Inr v, g') \<Longrightarrow>
     \<exists>r. create_embedding L ollama G rq g = (Inr r, g') \<and> embedding r = v \<and> dimension r = length v"
  by (simp add: create_embedding_def)

lemma create_embedding_error:
  "get_embeddings L ollama G (request_text rq) g = (Inl e, g') \<Longrightarrow>
     create_embedding L ollama G rq g = (Inl (HTTPException 500), g')"
  by (simp add: create_embedding_def)

lemma startup_ready_iff:
  "model_type (startup_event version_ok test_reply cuda (initial_globals name)) = ''ollama_qwen3''
     \<longleftrightarrow> version_ok \<and> (\<exists>e. test_reply = Body (Some e))"
  by (auto simp: startup_event_def load_model_def initial_globals_def
           split: ollama_reply.splits option.splits)

lemma startup_dim:
  "QWEN3_EMBEDDING_DIM (startup_event True (Body (Some e)) cuda (initial_globals name)) = length e"
  by (simp add: startup_event_def load_model_def)

lemma startup_type:
  "model_type (startup_event True (Body (Some e)) cuda (initial_globals name)) = ''ollama_qwen3''"
  by (simp add: startup_event_def load_model_def)

lemma startup_failed_type:
  "model_type (startup_event False RequestFailed False (initial_globals name)) = ''sentence_transformers''"
  by (simp add: startup_event_def load_model_def initial_globals_def)

text \<open>
  Claim C1, as amended. When the backend is marked ready (\<open>model_type\<close> is the
  live-backend marker), \<open>get_embeddings\<close> does not raise for a text that UTF-8 can
  encode, nor for a text the backend answers with an embedding, and \<open>/embed\<close> returns a
  response; when the backend call fails or its answer has no embedding, the result is
  \<open>deterministic_embedding(text, 2560)\<close>. When the backend is not marked ready,
  \<open>get_embeddings\<close> raises \<open>HTTPException(503)\<close> before any fallback.
\<close>

theorem resolution_raises_only_when_not_ready:
  "(model_type G = ''ollama_qwen3'' \<and>
      (\<not> list_ex is_surrogate (request_text rq) \<or> (\<exists>e. ollama (request_text rq) = Body (Some e)))
      \<longrightarrow>
      (\<exists>v g'. get_embeddings L ollama G (request_text rq) g = (Inr v, g')) \<and>
      (\<exists>r g'. create_embedding L ollama G rq g = (Inr r, g'))) \<and>
   (model_type G = ''ollama_qwen3'' \<and>
      (ollama (request_text rq) = RequestFailed \<or> ollama (request_text rq) = Body None)
      \<longrightarrow>
      get_embeddings L ollama G (request_text rq) g
        = deterministic_embedding L (request_text rq) 2560 g) \<and>
   (model_type G \<noteq> ''ollama_qwen3'' \<longrightarrow>
      get_embeddings L ollama G (request_text rq) g = (Inl (HTTPException 503), g))"
proof (intro conjI impI)
  assume a: "model_type G = ''ollama_qwen3'' \<and>
      (\<not> list_ex is_surrogate (request_text rq) \<or> (\<exists>e. ollama (request_text rq) = Body (Some e)))"
  from get_embeddings_ready_total[where ollama = ollama and t = "request_text rq",
      OF conjunct1[OF a] conjunct2[OF a]]
  show t: "\<exists>v g'. get_embeddings L ollama G (request_text rq) g = (Inr v, g')" .
  then obtain v g' where "get_embeddings L ollama G (request_text rq) g = (Inr v, g')" by blast
  from create_embedding_ok[OF this]
  show "\<exists>r g'. create_embedding L ollama G rq g = (Inr r, g')" by blast
next
  assume a: "model_type G = ''ollama_qwen3'' \<and>
      (ollama (request_text rq) = RequestFailed \<or> ollama (request_text rq) = Body None)"
  show "get_embeddings L ollama G (request_text rq) g
           = deterministic_embedding L (request_text rq) 2560 g"
    by (rule get_embeddings_fallback[where ollama = ollama and t = "request_text rq",
          OF conjunct1[OF a] conjunct2[OF a]])
next
  assume n: "model_type G \<noteq> ''ollama_qwen3''"
  from get_embeddings_not_ready[OF n]
  show "get_embeddings L ollama G (request_text rq) g = (Inl (HTTPException 503), g)" .
qed

text \<open>
  Claim C1 as stated fails: after a start-up probe that could not reach the backend,
  \<open>model_type\<close> keeps its initial value, \<open>get_embeddings\<close> raises 503 without trying
  the fallback, and a caller of \<open>/embed\<close> receives a 5xx answer.
\<close>

theorem not_ready_embed_returns_500:
  "model_type (startup_event False RequestFailed False (initial_globals ''m'')) = ''sentence_transformers'' \<and>
   get_embeddings example_libs backend_down
     (startup_event False RequestFailed False (initial_globals ''m'')) (ascii ''hello world'') 0
     = (Inl (HTTPException 503), 0) \<and>
   create_embedding example_libs backend_down
     (startup_event False RequestFailed False (initial_globals ''m''))
     \<lparr>request_text = ascii ''hello world'', model_name = None\<rparr> 0
     = (Inl (HTTPException 500), 0)"
  by (simp add: startup_event_def load_model_def initial_globals_def get_embeddings_def
        create_embedding_def)

text \<open>
  The amended claim C1 after a successful probe, with a backend that has since become
  unreachable: the deterministic fallback is returned and \<open>/embed\<close> answers. After a
  failed probe: 503.
\<close>

theorem resolution_raises_only_when_not_ready_witness:
  "model_type (startup_event True (Body (Some [Fin 3, Fin 4])) False (initial_globals ''m'')) = ''ollama_qwen3'' \<and>
   \<not> list_ex is_surrogate (ascii ''hello world'') \<and>
   backend_down (ascii ''hello world'') = RequestFailed \<and>
   get_embeddings example_libs backend_down
     (startup_event True (Body (Some [Fin 3, Fin 4])) False (initial_globals ''m''))
     (ascii ''hello world'') 0
     = deterministic_embedding example_libs (ascii ''hello world'') 2560 0 \<and>
   (\<exists>r g'. create_embedding example_libs backend_down
     (startup_event True (Body (Some [Fin 3, Fin 4])) False (initial_globals ''m''))
     \<lparr>request_text = ascii ''hello world'', model_name = None\<rparr> 0 = (Inr r, g')) \<and>
   model_type (startup_event False RequestFailed False (initial_globals ''m'')) \<noteq> ''ollama_qwen3'' \<and>
   get_embeddings example_libs backend_down
     (startup_event False RequestFailed False (initial_globals ''m'')) (ascii ''hello world'') 0
     = (Inl (HTTPException 503), 0)"
proof -
  let ?rq = "\<lparr>request_text = ascii ''hello world'', model_name = None\<rparr>"
  have n: "\<not> list_ex is_surrogate (ascii ''hello world'')"
    by (rule not_surrogate_ascii) simp
  have rt: "request_text ?rq = ascii ''hello world''" by simp
  have d: "backend_down (ascii ''hello world'') = RequestFailed" by (simp add: backend_down_def)
  have f: "model_type (startup_event False RequestFailed False (initial_globals ''m'')) \<noteq> ''ollama_qwen3''"
    by (simp add: startup_failed_type)
  note ready = resolution_raises_only_when_not_ready[where
      G = "startup_event True (Body (Some [Fin 3, Fin 4])) False (initial_globals ''m'')"
      and L = example_libs and ollama = backend_down and rq = ?rq and g = 0, unfolded rt]
  note unready = resolution_raises_only_when_not_ready[where
      G = "startup_event False RequestFailed False (initial_globals ''m'')"
      and L = example_libs and ollama = backend_down and rq = ?rq and g = 0, unfolded rt]
  from ready n have "\<exists>r g'. create_embedding example_libs backend_down
     (startup_event True (Body (Some [Fin 3, Fin 4])) False (initial_globals ''m'')) ?rq 0 = (Inr r, g')"
    by (simp add: startup_type)
  moreover from ready d have "get_embeddings example_libs backend_down
     (startup_event True (Body (Some [Fin 3, Fin 4])) False (initial_globals ''m''))
     (ascii ''hello world'') 0
     = deterministic_embedding example_libs (ascii ''hello world'') 2560 0"
    by (simp add: startup_type)
  moreover from unready f have "get_embeddings example_libs backend_down
     (startup_event False RequestFailed False (initial_globals ''m'')) (ascii ''hello world'') 0
     = (Inl (HTTPException 503), 0)"
    by simp
  ultimately show ?thesis using n d f startup_type by simp
qed

text \<open>
  A text with a lone surrogate, after a successful probe and with a backend that has
  become unreachable: the generator called in the \<open>except\<close> clause raises
  \<open>UnicodeEncodeError\<close>, which \<open>get_embeddings\<close> does not catch.
\<close>

lemma lone_surrogate_fallback_raises:
  "get_embeddings example_libs backend_down
     (startup_event True (Body (Some [Fin 3, Fin 4])) False (initial_globals ''m'')) [0xD800] 0
     = (Inl UnicodeEncodeError, 0)"
proof -
  have s: "list_ex is_surrogate [0xD800]" by (simp add: is_surrogate_def)
  have d: "backend_down [0xD800] = RequestFailed \<or> backend_down [0xD800] = Body None"
    by (simp add: backend_down_def)
  show ?thesis
    by (rule get_embeddings_surrogate_fallback[where ollama = backend_down and t = "[0xD800]",
          OF startup_type d s])
qed







lemma seed_hello_world: "int_of_hex (take 8 (hexdigest (known_md5 ''hello world''))) = Some 0x5eb63bbb"
  by (simp add: hexdigest_hello_world int_of_hex_def hex_val_def)

lemma example_draws:
  "np_random_normal example_libs 0 0.1 2 g = ([1 / 10, 1 / 10], Suc (Suc g))"
  by (simp add: numeral_2_eq_2 example_libs_def)

lemma utf8_hello_world: "concat (map utf8_bytes (ascii ''hello world'')) = ''hello world''"
  using encode_utf8_hello_world by (simp add: encode_utf8_def split: if_splits)


lemma success_path_dimension:
  assumes "model_type G = ''ollama_qwen3''" "ollama t = Body (Some e)"
  shows "result_length (get_embeddings L ollama G t g) = Some (QWEN3_EMBEDDING_DIM G)"
  by (simp add: get_embeddings_success[where ollama = ollama and t = t, OF assms]
        result_length_def length_l2_normalize length_reconcile)

text \<open>
  Claim C3 at an input where the program departs from it. With a probe that recorded
  dimension 3, an answer of four components from the backend is returned with length 3;
  once the backend has become unreachable, the same call returns a vector of length
  2560, not 3: both \<open>except\<close> clauses pass the literal 2560 to the generator and
  return its vector without the reconciliation that the path of the backend's answer
  applies.
\<close>

theorem fallback_ignores_probe_dimension:
  "QWEN3_EMBEDDING_DIM (startup_event True (Body (Some [Fin 1, Fin 2, Fin 3])) False (initial_globals ''m'')) = 3 \<and>
   result_length (get_embeddings example_libs (backend_answers [Fin 3, Fin 4, Fin 0, Fin 7])
     (startup_event True (Body (Some [Fin 1, Fin 2, Fin 3])) False (initial_globals ''m''))
     (ascii ''hello world'') 0) = Some 3 \<and>
   result_length (get_embeddings example_libs backend_down
     (startup_event True (Body (Some [Fin 1, Fin 2, Fin 3])) False (initial_globals ''m''))
     (ascii ''hello world'') 0) = Some 2560 \<and>
   (\<exists>r g'. create_embedding example_libs backend_down
        (startup_event True (Body (Some [Fin 1, Fin 2, Fin 3])) False (initial_globals ''m''))
        \<lparr>request_text = ascii ''hello world'', model_name = None\<rparr> 0 = (Inr r, g') \<and>
      length (embedding r) = 2560 \<and> dimension r = 2560)"
proof -
  let ?G = "startup_event True (Body (Some [Fin 1, Fin 2, Fin 3])) False (initial_globals ''m'')"
  have n: "\<not> list_ex is_surrogate (ascii ''hello world'')"
    by (rule not_surrogate_ascii) simp
  have dim: "QWEN3_EMBEDDING_DIM ?G = 3" by (simp add: startup_dim)
  have "result_length (get_embeddings example_libs (backend_answers [Fin 3, Fin 4, Fin 0, Fin 7])
     ?G (ascii ''hello world'') 0) = Some (QWEN3_EMBEDDING_DIM ?G)"
    by (rule success_path_dimension[OF startup_type]) (simp add: backend_answers_def)
  then have s: "result_length (get_embeddings example_libs (backend_answers [Fin 3, Fin 4, Fin 0, Fin 7])
     ?G (ascii ''hello world'') 0) = Some 3"
    by (simp only: dim)
  have "get_embeddings example_libs backend_down ?G (ascii ''hello world'') 0
      = deterministic_embedding example_libs (ascii ''hello world'') 2560 0"
    by (rule get_embeddings_fallback[OF startup_type]) (simp add: backend_down_def)
  moreover have "\<exists>v g'. deterministic_embedding example_libs (ascii ''hello world'') 2560 (0::nat) = (Inr v, g')
      \<and> length v = nat 2560"
    by (rule deterministic_embedding_total[OF n]) simp
  ultimately obtain v g' where
    v: "get_embeddings example_libs backend_down ?G (ascii ''hello world'') 0 = (Inr v, g')"
    and lv: "length v = 2560"
    by auto
  have f: "result_length (get_embeddings example_libs backend_down ?G (ascii ''hello world'') 0)
      = Some 2560"
    by (simp add: v lv result_length_def)
  let ?rq = "\<lparr>request_text = ascii ''hello world'', model_name = None\<rparr>"
  have "get_embeddings example_libs backend_down ?G (request_text ?rq) 0 = (Inr v, g')"
    using v by simp
  from create_embedding_ok[OF this] lv
  have c: "\<exists>r g'. create_embedding example_libs backend_down ?G ?rq 0 = (Inr r, g') \<and>
      length (embedding r) = 2560 \<and> dimension r = 2560"
    by auto
  from dim s f c show ?thesis by (intro conjI)
qed

text \<open>
  Claim C4. The outcome of \<open>deterministic_embedding\<close> for a text \<open>T\<close> and a dimension
  \<open>d\<close> does not depend on the state of the global generator before the call; two calls
  with the same \<open>T\<close> and \<open>d\<close> return the same vector, or raise alike. When \<open>T\<close> can
  be encoded, the generator is seeded afresh with the value of the first eight
  hexadecimal characters of the digest of the encoded \<open>T\<close> (so that the two calls also
  leave the generator in the same state), and when moreover \<open>d\<close> is not negative, \<open>d\<close>
  samples of mean 0 and standard deviation 0.1 are drawn and the vector of the samples,
  normalised, is returned.
\<close>

theorem deterministic_embedding_pure:
  "fst (deterministic_embedding L T d g1) = fst (deterministic_embedding L T d g2) \<and>
   (\<not> list_ex is_surrogate T \<longrightarrow>
      deterministic_embedding L T d g1 = deterministic_embedding L T d g2) \<and>
   (\<not> list_ex is_surrogate T \<and> 0 \<le> d \<longrightarrow>
      (\<exists>seed. int_of_hex (take 8 (hexdigest (hashlib_md5 L (concat (map utf8_bytes T))))) = Some seed \<and>
         fst (deterministic_embedding L T d g1) =
           Inr (l2_normalize L (map Fin (fst (np_random_normal L 0 0.1 (nat d) (np_random_seed L seed))))) \<and>
         length (fst (np_random_normal L 0 0.1 (nat d) (np_random_seed L seed))) = nat d))"
proof (intro conjI impI)
  show "fst (deterministic_embedding L T d g1) = fst (deterministic_embedding L T d g2)"
  proof (cases "list_ex is_surrogate T")
    case True
    then show ?thesis by (simp only: deterministic_embedding_unencodable fst_conv)
  next
    case False
    show ?thesis
    proof (cases "0 \<le> d")
      case True
      with False deterministic_embedding_eq[of T d L g1] deterministic_embedding_eq[of T d L g2]
      show ?thesis by auto
    next
      case False
      then have "d < 0" by simp
      with \<open>\<not> list_ex is_surrogate T\<close>
        deterministic_embedding_negative[of T d L g1] deterministic_embedding_negative[of T d L g2]
      show ?thesis by auto
    qed
  qed
next
  assume n: "\<not> list_ex is_surrogate T"
  show "deterministic_embedding L T d g1 = deterministic_embedding L T d g2"
  proof (cases "0 \<le> d")
    case True
    with n deterministic_embedding_eq[of T d L g1] deterministic_embedding_eq[of T d L g2]
    show ?thesis by auto
  next
    case False
    then have "d < 0" by simp
    with n deterministic_embedding_negative[of T d L g1] deterministic_embedding_negative[of T d L g2]
    show ?thesis by auto
  qed
next
  assume a: "\<not> list_ex is_surrogate T \<and> 0 \<le> d"
  from deterministic_embedding_eq[OF conjunct1[OF a] conjunct2[OF a], of L g1]
  show "\<exists>seed. int_of_hex (take 8 (hexdigest (hashlib_md5 L (concat (map utf8_bytes T))))) = Some seed \<and>
         fst (deterministic_embedding L T d g1) =
           Inr (l2_normalize L (map Fin (fst (np_random_normal L 0 0.1 (nat d) (np_random_seed L seed))))) \<and>
         length (fst (np_random_normal L 0 0.1 (nat d) (np_random_seed L seed))) = nat d"
    by (auto simp: length_np_random_normal)
qed

text \<open>
  Claim C4 at the text \<open>hello world\<close>, dimension 2, from generator states 0 and 7.
\<close>

theorem deterministic_embedding_pure_witness:
  "\<not> list_ex is_surrogate (ascii ''hello world'') \<and>
   deterministic_embedding example_libs (ascii ''hello world'') 2 0
     = deterministic_embedding example_libs (ascii ''hello world'') 2 7 \<and>
   fst (deterministic_embedding example_libs (ascii ''hello world'') 2 7)
     = Inr (l2_normalize example_libs [Fin (1 / 10), Fin (1 / 10)])"
proof -
  have h: "hashlib_md5 example_libs = known_md5" by (simp add: example_libs_def)
  have n: "\<not> list_ex is_surrogate (ascii ''hello world'')"
    by (rule not_surrogate_ascii) simp
  have nd: "\<not> list_ex is_surrogate (ascii ''hello world'') \<and> (0::int) \<le> 2" using n by simp
  have n2: "nat 2 = 2" by simp
  from deterministic_embedding_pure[where L = example_libs and T = "ascii ''hello world''" and d = 2
      and ?g1.0 = 7 and ?g2.0 = 0, THEN conjunct2, THEN conjunct2, THEN mp, OF nd]
  have "fst (deterministic_embedding example_libs (ascii ''hello world'') 2 7)
     = Inr (l2_normalize example_libs [Fin (1 / 10), Fin (1 / 10)])"
    unfolding h utf8_hello_world seed_hello_world n2 by (simp add: example_draws)
  moreover from deterministic_embedding_pure[where L = example_libs and T = "ascii ''hello world''" and d = 2
      and ?g1.0 = 0 and ?g2.0 = 7, THEN conjunct2, THEN conjunct1, THEN mp, OF n]
  have "deterministic_embedding example_libs (ascii ''hello world'') 2 0
     = deterministic_embedding example_libs (ascii ''hello world'') 2 7" .
  ultimately show ?thesis using n by (intro conjI)
qed

section \<open>Lemmas and claims: the JSON-RPC bridges\<close>

lemma process_line_invalid:
  "json_loads R (strip line) = JSONDecodeError \<Longrightarrow> process_line R h line w = ([], w)"
  by (simp add: process_line_def)

lemma process_line_raised:
  "json_loads R (strip line) = LoadsRaised e \<Longrightarrow>
     process_line R h line w = ([error_response R e], w)"
  by (simp add: process_line_def)

lemma process_line_object:
  "json_loads R (strip line) = Loaded (JObject kv) \<Longrightarrow>
     process_line R h line w =
       ([rpc_response (dict_get kv ''id'' JNull)
           (fst (h (dict_get kv ''method'' (JString []))
                   (dict_get kv ''params'' (JObject [])) w))],
        snd (h (dict_get kv ''method'' (JString []))
               (dict_get kv ''params'' (JObject [])) w))"
  by (simp add: process_line_def split: prod.splits)

lemma mcp_main_skip:
  assumes "line \<noteq> []" "json_loads R (strip line) = JSONDecodeError"
  shows "mcp_main R h (Line line # rest) w = mcp_main R h rest w"
  by (simp add: assms(1) process_line_invalid[OF assms(2)] split: prod.splits)

lemma mcp_main_raised:
  assumes "line \<noteq> []" "json_loads R (strip line) = LoadsRaised e"
  shows "mcp_main R h (Line line # rest) w =
           (error_response R e # fst (mcp_main R h rest w), snd (mcp_main R h rest w))"
  by (simp add: assms(1) process_line_raised[OF assms(2)] split: prod.splits)

lemma mcp_main_read_raises:
  "mcp_main R h (ReadRaises e # rest) w =
     (error_response R e # fst (mcp_main R h rest w), snd (mcp_main R h rest w))"
  by (simp split: prod.splits)

lemma mcp_main_object:
  assumes "line \<noteq> []" "json_loads R (strip line) = Loaded (JObject kv)"
  shows "mcp_main R h (Line line # rest) w =
     (rpc_response (dict_get kv ''id'' JNull)
           (fst (h (dict_get kv ''method'' (JString []))
                   (dict_get kv ''params'' (JObject [])) w))
        # fst (mcp_main R h rest
           (snd (h (dict_get kv ''method'' (JString []))
                   (dict_get kv ''params'' (JObject [])) w))),
      snd (mcp_main R h rest
           (snd (h (dict_get kv ''method'' (JString []))
                   (dict_get kv ''params'' (JObject [])) w))))"
  by (simp add: assms(1) process_line_object[OF assms(2)] split: prod.splits)

text \<open>
  An undecodable line: \<open>readline\<close> raises inside the \<open>try\<close>, the error response is
  printed for it, and the loop goes on with what \<open>readline\<close> yields next.
\<close>

lemma unreadable_line_reported:
  "LocalAI_main R S (ReadRaises e # rest) w =
     (error_response R e # fst (LocalAI_main R S rest w), snd (LocalAI_main R S rest w))"
  "Qdrant_main R Q (ReadRaises e # rest) w' =
     (error_response R e # fst (Qdrant_main R Q rest w'), snd (Qdrant_main R Q rest w'))"
  unfolding LocalAI_main_def Qdrant_main_def by (rule mcp_main_read_raises)+

text \<open>
  Claim C5, as amended. For every line read on which \<open>json.loads\<close> of the stripped
  line raises \<open>JSONDecodeError\<close>, the loop body prints nothing and leaves the world as
  it was, and the dispatcher goes on exactly as if the line had not been sent: what it
  prints for the rest of the input, and its final state, are the same. A line on which
  \<open>json.loads\<close> raises another exception is not silent: the error response with
  \<open>id\<close> null is printed for it, and the dispatcher goes on with the rest of the input
  in the same way. This holds for both dispatchers.
\<close>

theorem invalid_json_line_discarded:
  "(line \<noteq> [] \<and> json_loads R (strip line) = JSONDecodeError \<longrightarrow>
      process_line R (LocalAI_handle_request R S) line w = ([], w) \<and>
      LocalAI_main R S (Line line # rest) w = LocalAI_main R S rest w \<and>
      process_line R (Qdrant_handle_request R Q) line w' = ([], w') \<and>
      Qdrant_main R Q (Line line # rest) w' = Qdrant_main R Q rest w') \<and>
   (line \<noteq> [] \<and> json_loads R (strip line) = LoadsRaised e \<longrightarrow>
      LocalAI_main R S (Line line # rest) w
        = (error_response R e # fst (LocalAI_main R S rest w), snd (LocalAI_main R S rest w)) \<and>
      Qdrant_main R Q (Line line # rest) w'
        = (error_response R e # fst (Qdrant_main R Q rest w'), snd (Qdrant_main R Q rest w')))"
proof (intro impI conjI)
  assume a: "line \<noteq> [] \<and> json_loads R (strip line) = JSONDecodeError"
  note n = conjunct1[OF a] and j = conjunct2[OF a]
  show "process_line R (LocalAI_handle_request R S) line w = ([], w)"
    by (rule process_line_invalid[OF j])
  show "process_line R (Qdrant_handle_request R Q) line w' = ([], w')"
    by (rule process_line_invalid[OF j])
  show "LocalAI_main R S (Line line # rest) w = LocalAI_main R S rest w"
    unfolding LocalAI_main_def by (rule mcp_main_skip[OF n j])
  show "Qdrant_main R Q (Line line # rest) w' = Qdrant_main R Q rest w'"
    unfolding Qdrant_main_def by (rule mcp_main_skip[OF n j])
next
  assume a: "line \<noteq> [] \<and> json_loads R (strip line) = LoadsRaised e"
  note n = conjunct1[OF a] and j = conjunct2[OF a]
  show "LocalAI_main R S (Line line # rest) w
        = (error_response R e # fst (LocalAI_main R S rest w), snd (LocalAI_main R S rest w))"
    unfolding LocalAI_main_def by (rule mcp_main_raised[OF n j])
  show "Qdrant_main R Q (Line line # rest) w'
        = (error_response R e # fst (Qdrant_main R Q rest w'), snd (Qdrant_main R Q rest w'))"
    unfolding Qdrant_main_def by (rule mcp_main_raised[OF n j])
qed

lemma strip_space_end: "is_space c \<Longrightarrow> strip (s @ [c]) = strip s"
proof -
  assume c: "is_space c"
  show ?thesis
  proof (cases "list_all is_space s")
    case True
    have d1: "dropWhile is_space s = []"
      unfolding dropWhile_eq_Nil_conv using True by (simp add: list_all_iff)
    have d2: "dropWhile is_space (s @ [c]) = []"
      unfolding dropWhile_eq_Nil_conv using True c by (simp add: list_all_iff)
    show ?thesis by (simp add: strip_def d1 d2)
  next
    case False
    then obtain x where "x \<in> set s" "\<not> is_space x" by (auto simp: list_all_iff)
    then have "dropWhile is_space (s @ [c]) = dropWhile is_space s @ [c]"
      by (simp add: dropWhile_append1)
    then show ?thesis using c by (simp add: strip_def)
  qed
qed

lemma strip_solid:
  "s \<noteq> [] \<Longrightarrow> \<not> is_space (hd s) \<Longrightarrow> \<not> is_space (last s) \<Longrightarrow> strip s = s"
proof -
  assume s: "s \<noteq> []" and h: "\<not> is_space (hd s)" and l: "\<not> is_space (last s)"
  have d: "dropWhile is_space s = s" using s h by (cases s) simp_all
  from s obtain ys y where e: "s = ys @ [y]" by (cases s rule: rev_cases) auto
  have "dropWhile is_space (rev s) = rev s" using l unfolding e by simp
  then show ?thesis by (simp add: strip_def d)
qed

lemma is_space_newline: "is_space 10"
  by (simp add: is_space_def)

lemma strip_garbage: "strip (ascii ''garbage'' @ [10]) = ascii ''garbage''"
  unfolding strip_space_end[OF is_space_newline]
  by (rule strip_solid) (simp_all add: ascii_def is_space_def)

lemma strip_braces: "strip (ascii ''{}'' @ [10]) = ascii ''{}''"
  unfolding strip_space_end[OF is_space_newline]
  by (rule strip_solid) (simp_all add: ascii_def is_space_def)

lemma strip_deeply_nested: "strip (deeply_nested @ [10]) = deeply_nested"
  unfolding strip_space_end[OF is_space_newline]
  by (rule strip_solid) (simp_all add: deeply_nested_def is_space_def hd_replicate last_replicate)

lemma length_deeply_nested: "length deeply_nested = 100000"
  by (simp add: deeply_nested_def)

lemma loads_braces: "json_loads example_runtime (ascii ''{}'') = Loaded (JObject [])"
  by (simp add: example_runtime_def)

lemma loads_garbage: "json_loads example_runtime (ascii ''garbage'') = JSONDecodeError"
proof -
  have "length (ascii ''garbage'') \<noteq> length deeply_nested"
    by (simp add: length_deeply_nested ascii_def)
  then have "ascii ''garbage'' \<noteq> deeply_nested" by metis
  moreover have "ascii ''garbage'' \<noteq> ascii ''{}''" by (simp add: ascii_def)
  ultimately show ?thesis by (simp add: example_runtime_def)
qed

lemma loads_deeply_nested:
  "json_loads example_runtime deeply_nested =
     LoadsRaised (Raised ''maximum recursion depth exceeded while decoding a JSON array from a unicode string'')"
proof -
  have "length deeply_nested \<noteq> length (ascii ''{}'')"
    by (simp add: length_deeply_nested ascii_def)
  then have "deeply_nested \<noteq> ascii ''{}''" by metis
  then show ?thesis by (simp add: example_runtime_def)
qed

lemma unknown_empty_localai:
  "LocalAI_handle_request R S (JString []) params w
     = (JObject [(''error'', JString ''Unknown method: '')], w)"
  by (simp add: LocalAI_handle_request_def except_to_error_def unknown_method_def format_value_def)

lemma unknown_empty_qdrant:
  "Qdrant_handle_request R S (JString []) params w
     = (JObject [(''error'', JString ''Unknown method: '')], w)"
  by (simp add: Qdrant_handle_request_def except_to_error_def unknown_method_def format_value_def)

lemma braces_line_localai:
  "LocalAI_main example_runtime example_localai [Line (ascii ''{}'' @ [10])] 0
     = ([rpc_response JNull (JObject [(''error'', JString ''Unknown method: '')])], 0)"
proof -
  have n: "ascii ''{}'' @ [10] \<noteq> []" by simp
  have j: "json_loads example_runtime (strip (ascii ''{}'' @ [10])) = Loaded (JObject [])"
    unfolding strip_braces by (rule loads_braces)
  show ?thesis
    unfolding LocalAI_main_def
    using mcp_main_object[OF n j, of "LocalAI_handle_request example_runtime example_localai" "[]" 0]
    by (simp add: dict_get_def unknown_empty_localai)
qed

lemma braces_line_qdrant:
  "Qdrant_main example_runtime example_qdrant [Line (ascii ''{}'' @ [10])] 0
     = ([rpc_response JNull (JObject [(''error'', JString ''Unknown method: '')])], 0)"
proof -
  have n: "ascii ''{}'' @ [10] \<noteq> []" by simp
  have j: "json_loads example_runtime (strip (ascii ''{}'' @ [10])) = Loaded (JObject [])"
    unfolding strip_braces by (rule loads_braces)
  show ?thesis
    unfolding Qdrant_main_def
    using mcp_main_object[OF n j, of "Qdrant_handle_request example_runtime example_qdrant" "[]" 0]
    by (simp add: dict_get_def unknown_empty_qdrant)
qed

lemma error_response_recursion:
  "error_response example_runtime
     (Raised ''maximum recursion depth exceeded while decoding a JSON array from a unicode string'')
   = JObject [(''jsonrpc'', JString ''2.0''), (''id'', JNull),
        (''error'', JObject [(''message'',
           JString ''maximum recursion depth exceeded while decoding a JSON array from a unicode string'')])]"
  by (simp add: error_response_def example_runtime_def)

text \<open>
  Claim C5 as stated fails: the line of 100000 opening brackets is not valid JSON, yet
  it is not discarded in silence. \<open>json.loads\<close> raises \<open>RecursionError\<close> on it, which
  the \<open>except Exception\<close> clause reports with an output line; the request after it
  receives its response.
\<close>

theorem unparsable_line_printed:
  "json_loads example_runtime (strip (deeply_nested @ [10])) =
     LoadsRaised (Raised ''maximum recursion depth exceeded while decoding a JSON array from a unicode string'') \<and>
   LocalAI_main example_runtime example_localai
       [Line (deeply_nested @ [10]), Line (ascii ''{}'' @ [10])] 0
     = ([JObject [(''jsonrpc'', JString ''2.0''), (''id'', JNull),
           (''error'', JObject [(''message'',
              JString ''maximum recursion depth exceeded while decoding a JSON array from a unicode string'')])],
         rpc_response JNull (JObject [(''error'', JString ''Unknown method: '')])], 0) \<and>
   Qdrant_main example_runtime example_qdrant
       [Line (deeply_nested @ [10]), Line (ascii ''{}'' @ [10])] 0
     = ([JObject [(''jsonrpc'', JString ''2.0''), (''id'', JNull),
           (''error'', JObject [(''message'',
              JString ''maximum recursion depth exceeded while decoding a JSON array from a unicode string'')])],
         rpc_response JNull (JObject [(''error'', JString ''Unknown method: '')])], 0)"
proof -
  have n: "deeply_nested @ [10] \<noteq> []" by simp
  have j: "json_loads example_runtime (strip (deeply_nested @ [10])) =
     LoadsRaised (Raised ''maximum recursion depth exceeded while decoding a JSON array from a unicode string'')"
    unfolding strip_deeply_nested by (rule loads_deeply_nested)
  have l: "LocalAI_main example_runtime example_localai
       [Line (deeply_nested @ [10]), Line (ascii ''{}'' @ [10])] 0
     = (error_response example_runtime
          (Raised ''maximum recursion depth exceeded while decoding a JSON array from a unicode string'')
        # fst (LocalAI_main example_runtime example_localai [Line (ascii ''{}'' @ [10])] 0),
        snd (LocalAI_main example_runtime example_localai [Line (ascii ''{}'' @ [10])] 0))"
    unfolding LocalAI_main_def by (rule mcp_main_raised[OF n j])
  have q: "Qdrant_main example_runtime example_qdrant
       [Line (deeply_nested @ [10]), Line (ascii ''{}'' @ [10])] 0
     = (error_response example_runtime
          (Raised ''maximum recursion depth exceeded while decoding a JSON array from a unicode string'')
        # fst (Qdrant_main example_runtime example_qdrant [Line (ascii ''{}'' @ [10])] 0),
        snd (Qdrant_main example_runtime example_qdrant [Line (ascii ''{}'' @ [10])] 0))"
    unfolding Qdrant_main_def by (rule mcp_main_raised[OF n j])
  from j l q show ?thesis
    by (simp only: braces_line_localai braces_line_qdrant error_response_recursion fst_conv snd_conv)
qed

text \<open>
  The amended claim C5 on the lines \<open>garbage\<close> and \<open>{}\<close>: nothing is printed for
  the first line and the request on the second line receives its response. On the line
  of 100000 opening brackets followed by \<open>{}\<close>: two lines are printed.
\<close>

theorem invalid_json_line_discarded_witness:
  "ascii ''garbage'' @ [10] \<noteq> [] \<and>
   json_loads example_runtime (strip (ascii ''garbage'' @ [10])) = JSONDecodeError \<and>
   LocalAI_main example_runtime example_localai
       [Line (ascii ''garbage'' @ [10]), Line (ascii ''{}'' @ [10])] 0
     = ([rpc_response JNull (JObject [(''error'', JString ''Unknown method: '')])], 0) \<and>
   Qdrant_main example_runtime example_qdrant
       [Line (ascii ''garbage'' @ [10]), Line (ascii ''{}'' @ [10])] 0
     = ([rpc_response JNull (JObject [(''error'', JString ''Unknown method: '')])], 0) \<and>
   deeply_nested @ [10] \<noteq> [] \<and>
   json_loads example_runtime (strip (deeply_nested @ [10])) =
     LoadsRaised (Raised ''maximum recursion depth exceeded while decoding a JSON array from a unicode string'') \<and>
   length (fst (LocalAI_main example_runtime example_localai
       [Line (deeply_nested @ [10]), Line (ascii ''{}'' @ [10])] 0)) = 2 \<and>
   length (fst (Qdrant_main example_runtime example_qdrant
       [Line (deeply_nested @ [10]), Line (ascii ''{}'' @ [10])] 0)) = 2"
proof -
  have n: "ascii ''garbage'' @ [10] \<noteq> []" by simp
  have j: "json_loads example_runtime (strip (ascii ''garbage'' @ [10])) = JSONDecodeError"
    unfolding strip_garbage by (rule loads_garbage)
  note c = invalid_json_line_discarded[where line = "ascii ''garbage'' @ [10]"
      and R = example_runtime and S = example_localai
      and Q = example_qdrant and rest = "[Line (ascii ''{}'' @ [10])]" and w = 0 and w' = 0,
      THEN conjunct1, THEN mp, OF conjI[OF n j]]
  have n': "deeply_nested @ [10] \<noteq> []" by simp
  have j': "json_loads example_runtime (strip (deeply_nested @ [10])) =
     LoadsRaised (Raised ''maximum recursion depth exceeded while decoding a JSON array from a unicode string'')"
    unfolding strip_deeply_nested by (rule loads_deeply_nested)
  note c' = invalid_json_line_discarded[where line = "deeply_nested @ [10]"
      and R = example_runtime and S = example_localai
      and Q = example_qdrant and rest = "[Line (ascii ''{}'' @ [10])]" and w = 0 and w' = 0,
      THEN conjunct2, THEN mp, OF conjI[OF n' j']]
  have l1: "LocalAI_main example_runtime example_localai
       [Line (ascii ''garbage'' @ [10]), Line (ascii ''{}'' @ [10])] 0
     = ([rpc_response JNull (JObject [(''error'', JString ''Unknown method: '')])], 0)"
    using c by (simp only: braces_line_localai)
  have l2: "Qdrant_main example_runtime example_qdrant
       [Line (ascii ''garbage'' @ [10]), Line (ascii ''{}'' @ [10])] 0
     = ([rpc_response JNull (JObject [(''error'', JString ''Unknown method: '')])], 0)"
    using c by (simp only: braces_line_qdrant)
  have l3: "length (fst (LocalAI_main example_runtime example_localai
       [Line (deeply_nested @ [10]), Line (ascii ''{}'' @ [10])] 0)) = 2"
    by (simp only: c'[THEN conjunct1] braces_line_localai fst_conv) simp
  have l4: "length (fst (Qdrant_main example_runtime example_qdrant
       [Line (deeply_nested @ [10]), Line (ascii ''{}'' @ [10])] 0)) = 2"
    by (simp only: c'[THEN conjunct2] braces_line_qdrant fst_conv) simp
  from n j l1 l2 n' j' l3 l4 show ?thesis by (intro conjI)
qed







lemma points_loop_zip:
  "points_loop i ps acc =
     acc @ map (\<lambda>(k, (v, m)). point k v m) (zip [i..<i + length ps] ps)"
proof (induction ps arbitrary: i acc)
  case Nil
  then show ?case by simp
next
  case (Cons p ps)
  obtain v m where p: "p = (v, m)" by (cases p) auto
  have u: "[i..<i + length (p # ps)] = i # [Suc i..<Suc i + length ps]"
    by (simp add: upt_conv_Cons del: upt_Suc)
  show ?case
    unfolding u by (simp add: p Cons.IH del: upt_Suc)
qed

lemma points_loop_eq:
  "points_loop i ps acc =
     acc @ map (\<lambda>k. point (i + k) (fst (ps ! k)) (snd (ps ! k))) [0..<length ps]"
proof -
  have "map (\<lambda>(k, (v, m)). point k v m) (zip [i..<i + length ps] ps)
      = map (\<lambda>k. point (i + k) (fst (ps ! k)) (snd (ps ! k))) [0..<length ps]"
    by (rule nth_equalityI) (simp_all add: case_prod_beta)
  then show ?thesis by (simp only: points_loop_zip)
qed

lemma build_payload_lists:
  "build_payload (JArray vs) (JArray ms) =
     Inr (JObject [(''points'',
            JArray (map (\<lambda>k. point k (vs ! k) (ms ! k)) [0..<min (length vs) (length ms)]))])"
proof -
  have "map (\<lambda>k. point (0 + k) (fst (zip vs ms ! k)) (snd (zip vs ms ! k))) [0..<length (zip vs ms)]
      = map (\<lambda>k. point k (vs ! k) (ms ! k)) [0..<min (length vs) (length ms)]"
    by (rule map_cong) simp_all
  then show ?thesis
    by (simp add: build_payload_def points_loop_eq)
qed




lemma insert_vectors_count:
  assumes "build_payload (JArray vs) metadata = Inr payload"
    and "put_points Q payload w = (Inr (JObject d), w1)"
  shows "insert_vectors R Q (JArray vs) metadata w =
     (JObject [(''inserted_count'', JInt (int (length vs))),
               (''collection'', JString collection_name),
               (''status'', dict_get d ''status'' (JString ''unknown'')),
               (''result'', dict_get d ''result'' (JObject [])),
               (''timestamp'', JString (isoformat_now Q w1))], w1)"
  by (simp add: insert_vectors_def assms)

lemma insert_vectors_puts:
  assumes "build_payload (JArray vs) metadata = Inr payload"
  shows "snd (insert_vectors R Q (JArray vs) metadata w) = snd (put_points Q payload w)"
  by (simp add: insert_vectors_def assms split: prod.splits sum.splits)

lemma qdrant_insert_dispatch:
  "Qdrant_handle_request R Q (JString ''qdrant_insert_vectors'') (JObject kv) w =
     insert_vectors R Q (dict_get kv ''vectors'' (JArray [])) (dict_get kv ''metadata'' (JArray [])) w"
  by (simp add: Qdrant_handle_request_def except_to_error_def split: prod.splits)

text \<open>
  Claim C9. When a \<open>qdrant_insert_vectors\<close> request has no \<open>metadata\<close> key, the
  dispatcher calls \<open>insert_vectors\<close> with the empty list as metadata; the payload
  built has no points, that payload is what \<open>insert_vectors\<close> PUTs to the store, and
  when the store answers with a JSON object the result reports
  \<open>inserted_count = len(vectors)\<close>. In general the payload that is PUT has as many
  points as the shorter of the two lists, while \<open>inserted_count\<close> is the number of
  vectors.
\<close>

theorem omitted_metadata_sends_no_points:
  "(map_of kv ''metadata'' = None \<longrightarrow>
      Qdrant_handle_request R Q (JString ''qdrant_insert_vectors'') (JObject kv) w =
        insert_vectors R Q (dict_get kv ''vectors'' (JArray [])) (JArray []) w) \<and>
   build_payload (JArray vs) (JArray []) = Inr (JObject [(''points'', JArray [])]) \<and>
   snd (insert_vectors R Q (JArray vs) (JArray []) w)
     = snd (put_points Q (JObject [(''points'', JArray [])]) w) \<and>
   (put_points Q (JObject [(''points'', JArray [])]) w = (Inr (JObject d), w1) \<longrightarrow>
      insert_vectors R Q (JArray vs) (JArray []) w =
        (JObject [(''inserted_count'', JInt (int (length vs))),
                  (''collection'', JString collection_name),
                  (''status'', dict_get d ''status'' (JString ''unknown'')),
                  (''result'', dict_get d ''result'' (JObject [])),
                  (''timestamp'', JString (isoformat_now Q w1))], w1)) \<and>
   (\<exists>ps. build_payload (JArray vs) (JArray ms) = Inr (JObject [(''points'', JArray ps)]) \<and>
      length ps = min (length vs) (length ms) \<and>
      snd (insert_vectors R Q (JArray vs) (JArray ms) w)
        = snd (put_points Q (JObject [(''points'', JArray ps)]) w) \<and>
      (put_points Q (JObject [(''points'', JArray ps)]) w = (Inr (JObject d), w1) \<longrightarrow>
         py_get (fst (insert_vectors R Q (JArray vs) (JArray ms) w)) ''inserted_count'' JNull
           = Inr (JInt (int (length vs)))))"
proof (intro conjI impI)
  assume "map_of kv ''metadata'' = None"
  then have "dict_get kv ''metadata'' (JArray []) = JArray []" by (simp add: dict_get_def)
  then show "Qdrant_handle_request R Q (JString ''qdrant_insert_vectors'') (JObject kv) w =
        insert_vectors R Q (dict_get kv ''vectors'' (JArray [])) (JArray []) w"
    by (simp only: qdrant_insert_dispatch)
next
  show e: "build_payload (JArray vs) (JArray []) = Inr (JObject [(''points'', JArray [])])"
    by (simp add: build_payload_lists)
  show "snd (insert_vectors R Q (JArray vs) (JArray []) w)
     = snd (put_points Q (JObject [(''points'', JArray [])]) w)"
    by (rule insert_vectors_puts[OF e])
  assume p: "put_points Q (JObject [(''points'', JArray [])]) w = (Inr (JObject d), w1)"
  show "insert_vectors R Q (JArray vs) (JArray []) w =
        (JObject [(''inserted_count'', JInt (int (length vs))),
                  (''collection'', JString collection_name),
                  (''status'', dict_get d ''status'' (JString ''unknown'')),
                  (''result'', dict_get d ''result'' (JObject [])),
                  (''timestamp'', JString (isoformat_now Q w1))], w1)"
    by (rule insert_vectors_count[OF e p])
next
  let ?ps = "map (\<lambda>k. point k (vs ! k) (ms ! k)) [0..<min (length vs) (length ms)]"
  have b: "build_payload (JArray vs) (JArray ms) = Inr (JObject [(''points'', JArray ?ps)])"
    by (rule build_payload_lists)
  have l: "length ?ps = min (length vs) (length ms)" by simp
  have s: "snd (insert_vectors R Q (JArray vs) (JArray ms) w)
        = snd (put_points Q (JObject [(''points'', JArray ?ps)]) w)"
    by (rule insert_vectors_puts[OF b])
  have c: "put_points Q (JObject [(''points'', JArray ?ps)]) w = (Inr (JObject d), w1) \<longrightarrow>
         py_get (fst (insert_vectors R Q (JArray vs) (JArray ms) w)) ''inserted_count'' JNull
           = Inr (JInt (int (length vs)))"
  proof
    assume p: "put_points Q (JObject [(''points'', JArray ?ps)]) w = (Inr (JObject d), w1)"
    show "py_get (fst (insert_vectors R Q (JArray vs) (JArray ms) w)) ''inserted_count'' JNull
           = Inr (JInt (int (length vs)))"
      unfolding insert_vectors_count[OF b p] by (simp add: dict_get_def)
  qed
  from b l s c show "\<exists>ps. build_payload (JArray vs) (JArray ms) = Inr (JObject [(''points'', JArray ps)]) \<and>
      length ps = min (length vs) (length ms) \<and>
      snd (insert_vectors R Q (JArray vs) (JArray ms) w)
        = snd (put_points Q (JObject [(''points'', JArray ps)]) w) \<and>
      (put_points Q (JObject [(''points'', JArray ps)]) w = (Inr (JObject d), w1) \<longrightarrow>
         py_get (fst (insert_vectors R Q (JArray vs) (JArray ms) w)) ''inserted_count'' JNull
           = Inr (JInt (int (length vs))))"
    by (intro exI conjI)
qed

text \<open>
  Claim C9 on a request with one vector and no metadata, sent to a store that records
  what is PUT: the one payload the store receives has no points, and the result reports
  \<open>inserted_count\<close> 1.
\<close>

theorem omitted_metadata_sends_no_points_witness:
  "map_of [(''vectors'', JArray [JArray [JFloat 0.1, JFloat 0.2]])] ''metadata'' = None \<and>
   put_points recording_qdrant (JObject [(''points'', JArray [])]) []
     = (Inr (JObject [(''status'', JString ''ok'')]), [JObject [(''points'', JArray [])]]) \<and>
   Qdrant_handle_request example_runtime recording_qdrant (JString ''qdrant_insert_vectors'')
       (JObject [(''vectors'', JArray [JArray [JFloat 0.1, JFloat 0.2]])]) []
     = (JObject [(''inserted_count'', JInt 1),
                 (''collection'', JString collection_name),
                 (''status'', JString ''ok''),
                 (''result'', JObject []),
                 (''timestamp'', JString ''2025-01-01T00:00:00'')],
        [JObject [(''points'', JArray [])]])"
proof -
  note c = omitted_metadata_sends_no_points[where kv = "[(''vectors'', JArray [JArray [JFloat 0.1, JFloat 0.2]])]"
      and R = example_runtime and Q = recording_qdrant and w = "[]"
      and vs = "[JArray [JFloat 0.1, JFloat 0.2]]" and ms = "[]"
      and d = "[(''status'', JString ''ok'')]" and ?w1.0 = "[JObject [(''points'', JArray [])]]"]
  have m: "map_of [(''vectors'', JArray [JArray [JFloat 0.1, JFloat 0.2]])] ''metadata'' = None"
    by simp
  have g: "dict_get [(''vectors'', JArray [JArray [JFloat 0.1, JFloat 0.2]])] ''vectors'' (JArray [])
      = JArray [JArray [JFloat 0.1, JFloat 0.2]]"
    by (simp add: dict_get_def)
  have p: "put_points recording_qdrant (JObject [(''points'', JArray [])]) []
     = (Inr (JObject [(''status'', JString ''ok'')]), [JObject [(''points'', JArray [])]])"
    by (simp add: recording_qdrant_def)
  have t: "isoformat_now recording_qdrant [JObject [(''points'', JArray [])]] = ''2025-01-01T00:00:00''"
    by (simp add: recording_qdrant_def)
  note c1 = c[THEN conjunct1, THEN mp, OF m, unfolded g]
  note c4 = c[THEN conjunct2, THEN conjunct2, THEN conjunct2, THEN conjunct1, THEN mp, OF p]
  have "Qdrant_handle_request example_runtime recording_qdrant (JString ''qdrant_insert_vectors'')
       (JObject [(''vectors'', JArray [JArray [JFloat 0.1, JFloat 0.2]])]) []
     = (JObject [(''inserted_count'', JInt 1),
                 (''collection'', JString collection_name),
                 (''status'', JString ''ok''),
                 (''result'', JObject []),
                 (''timestamp'', JString ''2025-01-01T00:00:00'')],
        [JObject [(''points'', JArray [])]])"
    unfolding c1 c4 t by (simp add: dict_get_def)
  with m p show ?thesis by (intro conjI)
qed

end
